theory Spec2Isabelle
  imports Main
begin

section \<open>Download-progress parser (lxd\_vm\_image\_vault.cpp, parse\_percent\_as\_int)\<close>

text \<open>
  The source builds the regular expression \<^verbatim>\<open>\s(\d{1,3})%\<close> and searches the
  progress string for its leftmost match. A pattern of that shape is a sequence of
  items, each a character class repeated between a minimum and a maximum number of
  times (greedy, with backtracking), possibly inside capture group 1.
  \<open>QString\<close> is modelled as \<open>string\<close>; without the Unicode-properties option the
  classes \<^verbatim>\<open>\s\<close> and \<^verbatim>\<open>\d\<close> are the ASCII ones.
\<close>

datatype charclass = Whitespace | Digit | Literal char

datatype item = Item charclass nat nat bool

fun is_space :: "char \<Rightarrow> bool" where
  "is_space c = (c = CHR '' '' \<or> c = CHR 0x09 \<or> c = CHR 0x0A \<or> c = CHR 0x0B
                 \<or> c = CHR 0x0C \<or> c = CHR 0x0D)"

fun is_digit :: "char \<Rightarrow> bool" where
  "is_digit c = (c \<in> set ''0123456789'')"

fun in_class :: "charclass \<Rightarrow> char \<Rightarrow> bool" where
  "in_class Whitespace c = is_space c"
| "in_class Digit c = is_digit c"
| "in_class (Literal l) c = (c = l)"

fun first_some :: "'a option list \<Rightarrow> 'a option" where
  "first_some [] = None"
| "first_some (Some x # _) = Some x"
| "first_some (None # xs) = first_some xs"

text \<open>
  \<open>match_here p s\<close> matches the pattern at the start of \<open>s\<close> and returns the text of
  capture group 1. An item tries its largest repetition count first and gives
  characters back one at a time while the rest of the pattern fails.
\<close>

fun match_here :: "item list \<Rightarrow> string \<Rightarrow> string option" where
  "match_here [] s = Some []"
| "match_here (Item cls lo hi cap # items) s =
     first_some
       (map (\<lambda>k. if k \<le> length s \<and> list_all (in_class cls) (take k s)
                 then map_option (\<lambda>c. (if cap then take k s else []) @ c)
                        (match_here items (drop k s))
                 else None)
            (rev [lo..<Suc hi]))"

text \<open>\<open>QRegularExpression::match\<close>: the leftmost start position that matches.\<close>

fun re_match :: "item list \<Rightarrow> string \<Rightarrow> string option" where
  "re_match p [] = match_here p []"
| "re_match p (c # cs) =
     (case match_here p (c # cs) of
        Some cap \<Rightarrow> Some cap
      | None \<Rightarrow> re_match p cs)"

definition re :: "item list" where
  "re = [Item Whitespace 1 1 False, Item Digit 1 3 True, Item (Literal CHR ''%'') 1 1 False]"

fun digit_value :: "char \<Rightarrow> int" where
  "digit_value c = int (of_char c) - 48"

text \<open>
  \<open>QString::toInt\<close> on the captured text. The capture only ever holds ASCII digits,
  where the conversion is the decimal value; a failed conversion gives 0. Signs and
  surrounding blanks, which the capture never has, are not modelled.
\<close>

definition QString_toInt :: "string \<Rightarrow> int" where
  "QString_toInt s =
     (if s \<noteq> [] \<and> list_all is_digit s
      then foldl (\<lambda>acc c. 10 * acc + digit_value c) 0 s
      else 0)"

definition parse_percent_as_int :: "string \<Rightarrow> int" where
  "parse_percent_as_int progress_string =
     (case re_match re progress_string of
        Some captured \<Rightarrow> QString_toInt captured
      | None \<Rightarrow> - 1)"

text \<open>
  The spec's ``NN\%'' token, read as weakly as possible: a digit immediately followed
  by a percent sign, anywhere in the string.
\<close>

fun has_percent_token :: "string \<Rightarrow> bool" where
  "has_percent_token (c # d # cs) =
     ((is_digit c \<and> d = CHR ''%'') \<or> has_percent_token (d # cs))"
| "has_percent_token _ = False"

section \<open>JSON replies (QJsonValue, QJsonObject)\<close>

text \<open>
  A \<open>QJsonValue\<close> is undefined, null, a boolean, a number, a string, an array or an
  object. Numbers that are whole are \<open>JNumber\<close>; any other number is \<open>JFraction\<close>,
  whose value no accessor used here reads. An object is an association list; a key
  missing from it reads as \<open>JUndefined\<close>, as \<open>QJsonObject::operator[]\<close> gives.
\<close>

datatype json =
    JUndefined
  | JNull
  | JBool bool
  | JNumber int
  | JFraction
  | JString string
  | JArray "json list"
  | JObject "(string \<times> json) list"

type_synonym QJsonObject = "(string \<times> json) list"

definition value_of :: "QJsonObject \<Rightarrow> string \<Rightarrow> json" where
  "value_of obj key = (case map_of obj key of Some v \<Rightarrow> v | None \<Rightarrow> JUndefined)"

fun toObject :: "json \<Rightarrow> QJsonObject" where
  "toObject (JObject obj) = obj"
| "toObject _ = []"

fun toArray :: "json \<Rightarrow> json list" where
  "toArray (JArray xs) = xs"
| "toArray _ = []"

fun toString :: "json \<Rightarrow> string" where
  "toString (JString s) = s"
| "toString _ = []"

text \<open>
  \<open>toInt(defaultValue)\<close>: the number when the value is a whole number that fits a
  32-bit \<open>int\<close>, the default otherwise.
\<close>

fun toInt :: "json \<Rightarrow> int \<Rightarrow> int" where
  "toInt (JNumber n) d = (if - 2147483648 \<le> n \<and> n \<le> 2147483647 then n else d)"
| "toInt _ d = d"

text \<open>\<open>QString::number\<close> and \<open>fmt::format("{}", n)\<close>: the decimal digits of an integer.\<close>

fun digit_char :: "int \<Rightarrow> char" where
  "digit_char d = ''0123456789'' ! nat d"

function decimal :: "int \<Rightarrow> string" where
  "decimal n = (if n < 10 then [digit_char n] else decimal (n div 10) @ [digit_char (n mod 10)])"
  by pat_completeness auto
termination
  by (relation "measure nat") auto

declare decimal.simps [simp del]

definition QString_number :: "int \<Rightarrow> string" where
  "QString_number i = (if i < 0 then CHR ''-'' # decimal (- i) else decimal i)"

section \<open>The world outside the driver\<close>

datatype Level = error | warning | info | debug | trace

text \<open>
  Modelled from the spec: the \<open>VirtualMachine::State\<close> enumeration (its header is not
  among the sources), with the values the spec lists for InstanceState.
\<close>

datatype State =
    off | starting | running | stopped | suspending | suspended | delayed_shutdown | unknown

datatype exn =
    LXDNotFoundException
  | LXDRequestFailure
  | runtime_error string
  | AbortedDownloadException string
  | StartException string string

text \<open>
  A call returns a value, throws, or does not return in the scripted environment
  (\<open>Hangs\<close>: the transport has no further reply, or a condition wait is never
  satisfied).
\<close>

datatype 'a result = Returns 'a | Throws exn | Hangs

record request =
  req_method :: string
  req_url :: string
  req_body :: "QJsonObject option"
  req_timeout :: "int option"

datatype reply = Reply QJsonObject | NotFound | Failure

record world =
  replies :: "reply list"
  requests :: "request list"
  sleeps :: nat
  logs :: "(Level \<times> string \<times> string) list"
  persisted :: "(string \<times> State) list"
  reported :: "int list"

text \<open>
  Modelled from the spec: \<open>lxd_request\<close> (lxd\_request.h and its implementation are not
  among the sources). The spec's transport issues an HTTP verb with an optional JSON body
  against a URL and returns the parsed JSON object, raises a distinguished not-found
  condition for HTTP 404 and a generic failure otherwise. The remote daemon is a script:
  \<open>replies\<close> holds the answer to each successive request, whatever the request is, so
  every behaviour of the daemon is some script. \<open>requests\<close> records what was sent.
\<close>

definition lxd_request ::
  "string \<Rightarrow> string \<Rightarrow> QJsonObject option \<Rightarrow> int option \<Rightarrow> world \<Rightarrow> QJsonObject result \<times> world"
where
  "lxd_request method url json_data tmo w =
     (let w' = w\<lparr>requests := requests w @
                 [\<lparr>req_method = method, req_url = url, req_body = json_data, req_timeout = tmo\<rparr>]\<rparr>
      in case replies w of
           [] \<Rightarrow> (Hangs, w')
         | Reply json_reply # rs \<Rightarrow> (Returns json_reply, w'\<lparr>replies := rs\<rparr>)
         | NotFound # rs \<Rightarrow> (Throws LXDNotFoundException, w'\<lparr>replies := rs\<rparr>)
         | Failure # rs \<Rightarrow> (Throws LXDRequestFailure, w'\<lparr>replies := rs\<rparr>))"

definition log :: "Level \<Rightarrow> string \<Rightarrow> string \<Rightarrow> world \<Rightarrow> world" where
  "log lvl cat msg w = w\<lparr>logs := logs w @ [(lvl, cat, msg)]\<rparr>"

definition sleep_for_1s :: "world \<Rightarrow> world" where
  "sleep_for_1s w = w\<lparr>sleeps := Suc (sleeps w)\<rparr>"

text \<open>
  The test every caller makes on the reply to a state change, a creation or a pull:
  the reply describes an asynchronous operation.
\<close>

definition is_running_task :: "QJsonObject \<Rightarrow> bool" where
  "is_running_task json_reply \<longleftrightarrow>
     value_of (toObject (value_of json_reply ''metadata'')) ''class'' = JString ''task''
     \<and> toInt (value_of json_reply ''status_code'') (- 1) = 100"

section \<open>State mapper (instance\_state\_for)\<close>

definition instance_state_for :: "string \<Rightarrow> string \<Rightarrow> world \<Rightarrow> State result \<times> world" where
  "instance_state_for name url w =
     (case lxd_request ''GET'' url None None w of
        (Returns json_reply, w1) \<Rightarrow>
          (let metadata = toObject (value_of json_reply ''metadata'');
               w2 = log trace name
                      (''Got LXD container state: '' @ name @ '' is ''
                        @ toString (value_of metadata ''status'')) w1;
               status_code = toInt (value_of metadata ''status_code'') (- 1)
           in if status_code = 101 \<or> status_code = 103 \<or> status_code = 107 \<or> status_code = 111
              then (Returns running, w2)
              else if status_code = 102 then (Returns stopped, w2)
              else if status_code = 106 then (Returns starting, w2)
              else if status_code = 109 then (Returns suspending, w2)
              else if status_code = 110 then (Returns suspended, w2)
              else if status_code = 104 \<or> status_code = 108 then (Returns unknown, w2)
              else (Returns unknown,
                    log error name
                      (''Got unexpected LXD state: '' @ toString (value_of metadata ''status_code'')
                        @ '' ('' @ QString_number (toInt (value_of metadata ''status'') 0) @ '')'')
                      w2))
      | (Throws e, w1) \<Rightarrow> (Throws e, w1)
      | (Hangs, w1) \<Rightarrow> (Hangs, w1))"

section \<open>Instance controller (LXDVirtualMachine)\<close>

text \<open>
  The fields the methods below read or write. \<open>vm_name\<close> and \<open>state\<close> are the base
  class's, \<open>name\<close> is \<open>vm_name\<close> as a \<open>QString\<close>. \<open>ip\<close> is the cached address and
  \<open>port\<close> a second optional member; the status monitor and the network manager are
  part of the world. An \<open>IPAddress\<close> is kept as the text it was built from.
\<close>

record LXDVirtualMachine =
  vm_name :: string
  name :: string
  username :: string
  state :: State
  ip :: "string option"
  port :: "int option"
  base_url :: string

definition url :: "LXDVirtualMachine \<Rightarrow> string" where
  "url vm = base_url vm @ ''/virtual-machines/'' @ name vm"

definition state_url :: "LXDVirtualMachine \<Rightarrow> string" where
  "state_url vm = url vm @ ''/state''"

definition request_state ::
  "string \<Rightarrow> LXDVirtualMachine \<Rightarrow> world \<Rightarrow> QJsonObject result \<times> world"
where
  "request_state new_state vm w =
     lxd_request ''PUT'' (state_url vm) (Some [(''action'', JString new_state)]) (Some 5000) w"

definition update_state :: "LXDVirtualMachine \<Rightarrow> world \<Rightarrow> world" where
  "update_state vm w = w\<lparr>persisted := persisted w @ [(vm_name vm, state vm)]\<rparr>"

definition current_state ::
  "LXDVirtualMachine \<Rightarrow> world \<Rightarrow> State result \<times> LXDVirtualMachine \<times> world"
where
  "current_state vm w =
     (case instance_state_for (name vm) (state_url vm) w of
        (Returns present_state, w1) \<Rightarrow>
          if (state vm = delayed_shutdown \<and> present_state = running) \<or> state vm = starting
          then (Returns (state vm), vm, w1)
          else (Returns present_state, vm\<lparr>state := present_state\<rparr>, w1)
      | (Throws e, w1) \<Rightarrow> (Throws e, vm, w1)
      | (Hangs, w1) \<Rightarrow> (Hangs, vm, w1))"

definition start ::
  "LXDVirtualMachine \<Rightarrow> world \<Rightarrow> unit result \<times> LXDVirtualMachine \<times> world"
where
  "start vm w =
     (case current_state vm w of
        (Returns present_state, vm1, w1) \<Rightarrow>
          if present_state = running then (Returns (), vm1, w1)
          else if present_state = suspending
          then (Throws (runtime_error ''cannot start the instance while suspending''), vm1, w1)
          else
            (case (if state vm1 = suspended
                   then request_state ''unfreeze'' vm1
                          (log info (vm_name vm1) ''Resuming from a suspended state'' w1)
                   else request_state ''start'' vm1 w1) of
               (Returns _, w2) \<Rightarrow>
                 (let vm2 = vm1\<lparr>state := starting\<rparr>
                  in (Returns (), vm2, update_state vm2 w2))
             | (Throws e, w2) \<Rightarrow> (Throws e, vm1, w2)
             | (Hangs, w2) \<Rightarrow> (Hangs, vm1, w2))
      | (Throws e, vm1, w1) \<Rightarrow> (Throws e, vm1, w1)
      | (Hangs, vm1, w1) \<Rightarrow> (Hangs, vm1, w1))"

text \<open>
  \<open>state_wait.wait(lock, pred)\<close> is \<open>while (!pred()) wait(lock)\<close>. Each blocking
  \<open>wait(lock)\<close> releases the mutex, so what the other threads do to the instance and
  the world before the waiter runs again is one element of \<open>others\<close>. When the other
  threads never make the predicate true the wait does not return.
\<close>

fun state_wait_wait ::
  "(LXDVirtualMachine \<Rightarrow> bool) \<Rightarrow> (LXDVirtualMachine \<times> world \<Rightarrow> LXDVirtualMachine \<times> world) list
     \<Rightarrow> LXDVirtualMachine \<times> world \<Rightarrow> (LXDVirtualMachine \<times> world) option"
where
  "state_wait_wait pred others (vm, w) =
     (if pred vm then Some (vm, w)
      else case others of
             [] \<Rightarrow> None
           | other # rest \<Rightarrow> state_wait_wait pred rest (other (vm, w)))"

definition stop ::
  "(LXDVirtualMachine \<times> world \<Rightarrow> LXDVirtualMachine \<times> world) list
     \<Rightarrow> LXDVirtualMachine \<Rightarrow> world \<Rightarrow> unit result \<times> LXDVirtualMachine \<times> world"
where
  "stop others vm w =
     (case current_state vm w of
        (Returns present_state, vm1, w1) \<Rightarrow>
          if present_state = running \<or> present_state = delayed_shutdown then
            (case request_state ''stop'' vm1 w1 of
               (Returns state_task, w2) \<Rightarrow>
                 (case (if is_running_task state_task
                        then lxd_request ''GET''
                               (base_url vm1 @ ''/operations/''
                                 @ toString (value_of (toObject (value_of state_task ''metadata'')) ''id'')
                                 @ ''/wait'') None None w2
                        else (Returns [], w2)) of
                    (Returns _, w3) \<Rightarrow>
                      (let vm2 = vm1\<lparr>state := stopped, port := None\<rparr>
                       in (Returns (), vm2, update_state vm2 w3))
                  | (Throws e, w3) \<Rightarrow> (Throws e, vm1, w3)
                  | (Hangs, w3) \<Rightarrow> (Hangs, vm1, w3))
             | (Throws e, w2) \<Rightarrow> (Throws e, vm1, w2)
             | (Hangs, w2) \<Rightarrow> (Hangs, vm1, w2))
          else if present_state = starting then
            (let vm2 = vm1\<lparr>state := off\<rparr>
             in case request_state ''stop'' vm2 w1 of
                  (Returns _, w2) \<Rightarrow>
                    (case state_wait_wait (\<lambda>v. state v = stopped) others (vm2, w2) of
                       Some (vm3, w3) \<Rightarrow>
                         (let vm4 = vm3\<lparr>port := None\<rparr>
                          in (Returns (), vm4, update_state vm4 w3))
                     | None \<Rightarrow> (Hangs, vm2, w2))
                | (Throws e, w2) \<Rightarrow> (Throws e, vm2, w2)
                | (Hangs, w2) \<Rightarrow> (Hangs, vm2, w2))
          else if present_state = suspended then
            (Returns (), vm1,
             update_state vm1
               (log info (vm_name vm1) ''Ignoring shutdown issued while suspended'' w1))
          else (Returns (), vm1, update_state vm1 w1)
      | (Throws e, vm1, w1) \<Rightarrow> (Throws e, vm1, w1)
      | (Hangs, vm1, w1) \<Rightarrow> (Hangs, vm1, w1))"

fun first_inet :: "json list \<Rightarrow> string option" where
  "first_inet [] = None"
| "first_inet (address # addresses) =
     (if toString (value_of (toObject address) ''family'') = ''inet''
      then Some (toString (value_of (toObject address) ''address''))
      else first_inet addresses)"

definition get_ip_for :: "string \<Rightarrow> string \<Rightarrow> world \<Rightarrow> string option result \<times> world" where
  "get_ip_for name' url' w =
     (case lxd_request ''GET'' url' None None w of
        (Returns json_state, w1) \<Rightarrow>
          (let addresses =
                 toArray (value_of (toObject (value_of (toObject (value_of
                   (toObject (value_of json_state ''metadata'')) ''network'')) ''eth0''))
                   ''addresses'')
           in case first_inet addresses of
                Some a \<Rightarrow> (Returns (Some a), w1)
              | None \<Rightarrow> (Returns None, log trace name' (''IP for '' @ name' @ '' not found...'') w1))
      | (Throws e, w1) \<Rightarrow> (Throws e, w1)
      | (Hangs, w1) \<Rightarrow> (Hangs, w1))"

definition ipv4 ::
  "LXDVirtualMachine \<Rightarrow> world \<Rightarrow> string result \<times> LXDVirtualMachine \<times> world"
where
  "ipv4 vm w =
     (case ip vm of
        Some a \<Rightarrow> (Returns a, vm, w)
      | None \<Rightarrow>
          (case get_ip_for (name vm) (state_url vm) w of
             (Returns (Some a), w1) \<Rightarrow> (Returns a, vm\<lparr>ip := Some a\<rparr>, w1)
           | (Returns None, w1) \<Rightarrow> (Returns ''UNKNOWN'', vm, w1)
           | (Throws e, w1) \<Rightarrow> (Throws e, vm, w1)
           | (Hangs, w1) \<Rightarrow> (Hangs, vm, w1)))"

section \<open>Creation on construction\<close>

record VMImage =
  image_id :: string
  image_stream_location :: string
  original_release :: string
  release_date :: string
  image_aliases :: "string list"

text \<open>
  A \<open>MemorySize\<close> is its number of bytes. A cloud-init document is \<open>None\<close> when the
  YAML node is null and otherwise the text \<open>emit_cloud_config\<close> gives for it.
\<close>

record VirtualMachineDescription =
  num_cores :: int
  mem_size :: int
  disk_space :: int
  desc_vm_name :: string
  ssh_username :: string
  desc_image :: VMImage
  meta_data_config :: "string option"
  user_data_config :: "string option"
  vendor_data_config :: "string option"

text \<open>
  Modelled from the spec: \<open>MemorySize{"10G"}\<close> (the class is not among the sources);
  the spec gives the floor as 10 GiB.
\<close>

definition lxd_min_disk_size :: int where
  "lxd_min_disk_size = 10 * 1024 * 1024 * 1024"

definition get_minimum_disk_size :: "int \<Rightarrow> int" where
  "get_minimum_disk_size requested_disk_size =
     (if requested_disk_size > lxd_min_disk_size then requested_disk_size
      else lxd_min_disk_size)"

text \<open>\<open>object[key] = value\<close> on a \<open>QJsonObject\<close>.\<close>

definition insert_value :: "string \<Rightarrow> json \<Rightarrow> QJsonObject \<Rightarrow> QJsonObject" where
  "insert_value key v obj = (key, v) # filter (\<lambda>kv. fst kv \<noteq> key) obj"

definition create_config :: "VirtualMachineDescription \<Rightarrow> QJsonObject" where
  "create_config desc =
     (let config = [(''limits.cpu'', JString (QString_number (num_cores desc))),
                    (''limits.memory'', JString (QString_number (mem_size desc)))];
          config1 = (case meta_data_config desc of
                       Some doc \<Rightarrow> insert_value ''user.meta-data'' (JString doc) config
                     | None \<Rightarrow> config);
          config2 = (case vendor_data_config desc of
                       Some doc \<Rightarrow> insert_value ''user.vendor-data'' (JString doc) config1
                     | None \<Rightarrow> config1)
      in case user_data_config desc of
           Some doc \<Rightarrow> insert_value ''user.user-data'' (JString doc) config2
         | None \<Rightarrow> config2)"

definition create_devices :: "VirtualMachineDescription \<Rightarrow> QJsonObject" where
  "create_devices desc =
     [(''config'', JObject [(''source'', JString ''cloud-init:config''), (''type'', JString ''disk'')]),
      (''root'', JObject [(''path'', JString ''/''),
                          (''pool'', JString ''default''),
                          (''size'', JString (QString_number
                                       (get_minimum_disk_size (disk_space desc)))),
                          (''type'', JString ''disk'')])]"

definition create_virtual_machine :: "VirtualMachineDescription \<Rightarrow> QJsonObject" where
  "create_virtual_machine desc =
     [(''name'', JString (desc_vm_name desc)),
      (''config'', JObject (create_config desc)),
      (''devices'', JObject (create_devices desc)),
      (''source'', JObject [(''type'', JString ''image''),
                            (''mode'', JString ''pull''),
                            (''server'', JString (image_stream_location (desc_image desc))),
                            (''protocol'', JString ''simplestreams''),
                            (''fingerprint'', JString (image_id (desc_image desc)))])]"

text \<open>The polling loop of the constructor: \<open>while (true)\<close> around one GET.\<close>

function create_poll :: "string \<Rightarrow> world \<Rightarrow> unit result \<times> world" where
  "create_poll task_url w =
     (case lxd_request ''GET'' task_url None None w of
        (Returns task_reply, w1) \<Rightarrow>
          if toInt (value_of task_reply ''error_code'') (- 1) \<noteq> 0 then (Returns (), w1)
          else if toInt (value_of (toObject (value_of task_reply ''metadata'')) ''status_code'') (- 1)
                    = 200
          then (Returns (), w1)
          else create_poll task_url (sleep_for_1s w1)
      | (Throws LXDNotFoundException, w1) \<Rightarrow> (Returns (), w1)
      | (Throws e, w1) \<Rightarrow> (Throws e, w1)
      | (Hangs, w1) \<Rightarrow> (Hangs, w1))"
  by pat_completeness auto
termination
  by (relation "measure (\<lambda>(task_url, w). length (replies w))")
     (auto simp: sleep_for_1s_def lxd_request_def Let_def split: list.splits reply.splits)

declare create_poll.simps [simp del]

text \<open>
  The constructor. \<open>initial\<close> is the state the base class \<open>VirtualMachine\<close> starts in and
  \<open>toJson\<close> is \<open>QJsonDocument::toJson\<close>; neither is among the sources.
\<close>

definition LXDVirtualMachine_new ::
  "VirtualMachineDescription \<Rightarrow> State \<Rightarrow> string \<Rightarrow> (QJsonObject \<Rightarrow> string) \<Rightarrow> world
     \<Rightarrow> LXDVirtualMachine result \<times> world"
where
  "LXDVirtualMachine_new desc initial base toJson w =
     (let vm = \<lparr>vm_name = desc_vm_name desc, name = desc_vm_name desc,
                 username = ssh_username desc, state = initial, ip = None, port = None,
                 base_url = base\<rparr>
      in case current_state vm w of
           (Returns _, vm1, w1) \<Rightarrow> (Returns vm1, w1)
         | (Throws LXDNotFoundException, vm1, w1) \<Rightarrow>
             (let w2 = log debug (name vm1)
                         (''Creating container with stream: ''
                           @ image_stream_location (desc_image desc)
                           @ '', id: '' @ image_id (desc_image desc)) w1
              in case lxd_request ''POST'' (base @ ''/virtual-machines'')
                        (Some (create_virtual_machine desc)) None w2 of
                   (Returns json_reply, w3) \<Rightarrow>
                     (let w4 = log trace (name vm1)
                                 (''Got LXD creation reply: '' @ toJson json_reply) w3
                      in case (if is_running_task json_reply
                               then create_poll
                                      (base @ ''/operations/''
                                        @ toString (value_of (toObject (value_of json_reply ''metadata''))
                                                     ''id''))
                                      w4
                               else (Returns (), w4)) of
                           (Returns _, w5) \<Rightarrow>
                             (case current_state vm1 w5 of
                                (Returns _, vm2, w6) \<Rightarrow> (Returns vm2, w6)
                              | (Throws e, vm2, w6) \<Rightarrow> (Throws e, w6)
                              | (Hangs, vm2, w6) \<Rightarrow> (Hangs, w6))
                         | (Throws e, w5) \<Rightarrow> (Throws e, w5)
                         | (Hangs, w5) \<Rightarrow> (Hangs, w5))
                 | (Throws e, w3) \<Rightarrow> (Throws e, w3)
                 | (Hangs, w3) \<Rightarrow> (Hangs, w3))
         | (Throws e, vm1, w1) \<Rightarrow> (Throws e, w1)
         | (Hangs, vm1, w1) \<Rightarrow> (Hangs, w1))"

section \<open>Image vault (LXDVMImageVault)\<close>

text \<open>
  Modelled from the spec: \<open>Query\<close>, \<open>VMImageInfo\<close> and the \<open>VMImageHost\<close> interface
  (their headers are not among the sources). A query is an alias lookup or a direct
  http or file source; a catalog answers \<open>info_for\<close> with optional metadata and
  \<open>info_for_full_hash\<close> with metadata, and either may throw.
\<close>

datatype Type = Alias | LocalFile | HttpDownload

record Query =
  query_name :: string
  release :: string
  remote_name :: string
  query_type :: Type

record VMImageInfo =
  info_aliases :: "string list"
  release_title :: string
  info_id :: string
  info_stream_location :: string
  version :: string

record VMImageHost =
  supported_remotes :: "string list"
  host_info_for :: "Query \<Rightarrow> exn + VMImageInfo option"
  info_for_full_hash :: "string \<Rightarrow> exn + VMImageInfo"

record LXDVMImageVault =
  image_hosts :: "VMImageHost list"
  vault_base_url :: string
  remote_image_host_map :: "string \<Rightarrow> VMImageHost option"

definition LXDVMImageVault_new ::
  "VMImageHost list \<Rightarrow> (string \<Rightarrow> bool) \<Rightarrow> string \<Rightarrow> LXDVMImageVault"
where
  "LXDVMImageVault_new hosts is_remote_supported base =
     \<lparr>image_hosts = hosts, vault_base_url = base,
      remote_image_host_map =
        foldl (\<lambda>m image_host.
                 foldl (\<lambda>m' remote. if is_remote_supported remote
                                     then m'(remote \<mapsto> image_host) else m')
                       m (supported_remotes image_host))
              Map.empty hosts\<rparr>"

definition no_match :: "Query \<Rightarrow> exn" where
  "no_match query =
     runtime_error (''Unable to find an image matching '' @ [CHR 0x22] @ release query @ [CHR 0x22])"

fun first_info :: "VMImageHost list \<Rightarrow> Query \<Rightarrow> exn + VMImageInfo" where
  "first_info [] query = Inl (no_match query)"
| "first_info (image_host # hosts) query =
     (case host_info_for image_host query of
        Inl e \<Rightarrow> Inl e
      | Inr (Some info') \<Rightarrow> Inr info'
      | Inr None \<Rightarrow> first_info hosts query)"

definition info_for :: "LXDVMImageVault \<Rightarrow> Query \<Rightarrow> exn + VMImageInfo" where
  "info_for vault query =
     (if remote_name query \<noteq> [] then
        (case remote_image_host_map vault (remote_name query) of
           None \<Rightarrow>
             Inl (runtime_error
                    (''Remote '' @ [CHR 0x22] @ remote_name query @ [CHR 0x22] @ '' is unknown.''))
         | Some image_host \<Rightarrow>
             (case host_info_for image_host query of
                Inl e \<Rightarrow> Inl e
              | Inr (Some info') \<Rightarrow> Inr info'
              | Inr None \<Rightarrow> Inl (no_match query)))
      else first_info (image_hosts vault) query)"

definition source_image_of :: "string \<Rightarrow> VMImageInfo \<Rightarrow> VMImage" where
  "source_image_of id' info' =
     \<lparr>image_id = id', image_stream_location = info_stream_location info',
      original_release = release_title info', release_date = version info',
      image_aliases = info_aliases info'\<rparr>"

text \<open>
  The first block of \<open>fetch_image\<close>: one GET for an existing instance and a reverse
  lookup of its base image in every catalog. Every exception is swallowed and the
  images built are local to the block, so the caller gets nothing but the world back.
\<close>

definition existing_instance_images ::
  "LXDVMImageVault \<Rightarrow> Query \<Rightarrow> world \<Rightarrow> VMImage list result \<times> world"
where
  "existing_instance_images vault query w =
     (case lxd_request ''GET'' (vault_base_url vault @ ''/virtual_machines/'' @ query_name query)
             None None w of
        (Returns instance_info, w1) \<Rightarrow>
          (let id' = toString (value_of (toObject (value_of
                       (toObject (value_of instance_info ''metadata'')) ''config''))
                       ''volatile.base_image'')
           in (Returns (concat (map (\<lambda>image_host.
                                       case info_for_full_hash image_host id' of
                                         Inr info' \<Rightarrow> [source_image_of id' info']
                                       | Inl _ \<Rightarrow> [])
                                    (image_hosts vault))),
               w1))
      | (Throws _, w1) \<Rightarrow> (Returns [], w1)
      | (Hangs, w1) \<Rightarrow> (Hangs, w1))"

text \<open>
  The polling loop of \<open>fetch_image\<close>. \<open>monitor\<close> is the caller's progress callback: it
  sees the percentages reported so far, the current one last, and answers whether to go
  on. The DELETE of a cancelled download is inside the \<open>try\<close> block, so a not-found
  answer to it ends the loop like any other.
\<close>

function fetch_poll :: "string \<Rightarrow> (int list \<Rightarrow> bool) \<Rightarrow> world \<Rightarrow> unit result \<times> world" where
  "fetch_poll task_url monitor w =
     (case lxd_request ''GET'' task_url None None w of
        (Returns task_reply, w1) \<Rightarrow>
          if toInt (value_of task_reply ''error_code'') (- 1) \<noteq> 0 then (Returns (), w1)
          else if toInt (value_of (toObject (value_of task_reply ''metadata'')) ''status_code'') (- 1)
                    = 200
          then (Returns (), w1)
          else
            (let download_progress =
                   parse_percent_as_int
                     (toString (value_of (toObject (value_of
                        (toObject (value_of task_reply ''metadata'')) ''metadata''))
                        ''download_progress''));
                 w2 = w1\<lparr>reported := reported w1 @ [download_progress]\<rparr>
             in if \<not> monitor (reported w2) then
                  (case lxd_request ''DELETE'' task_url None None w2 of
                     (Returns _, w3) \<Rightarrow> (Throws (AbortedDownloadException ''Download aborted''), w3)
                   | (Throws LXDNotFoundException, w3) \<Rightarrow> (Returns (), w3)
                   | (Throws e, w3) \<Rightarrow> (Throws e, w3)
                   | (Hangs, w3) \<Rightarrow> (Hangs, w3))
                else fetch_poll task_url monitor (sleep_for_1s w2))
      | (Throws LXDNotFoundException, w1) \<Rightarrow> (Returns (), w1)
      | (Throws e, w1) \<Rightarrow> (Throws e, w1)
      | (Hangs, w1) \<Rightarrow> (Hangs, w1))"
  by pat_completeness auto
termination
  by (relation "measure (\<lambda>(task_url, monitor, w). length (replies w))")
     (auto simp: sleep_for_1s_def lxd_request_def Let_def split: list.splits reply.splits)

declare fetch_poll.simps [simp del]

text \<open>
  \<open>fetch_image\<close>. \<open>is_image_url_supported\<close> is the platform's answer (the platform
  functions are not among the sources); the fetch type and the prepare action are not
  used by the source.
\<close>

definition fetch_image ::
  "LXDVMImageVault \<Rightarrow> bool \<Rightarrow> Query \<Rightarrow> (int list \<Rightarrow> bool) \<Rightarrow> world \<Rightarrow> VMImage result \<times> world"
where
  "fetch_image vault is_image_url_supported query monitor w =
     (case existing_instance_images vault query w of
        (Hangs, w1) \<Rightarrow> (Hangs, w1)
      | (_, w1) \<Rightarrow>
          if query_type query \<noteq> Alias \<and> \<not> is_image_url_supported
          then (Throws (runtime_error ''http and file based images are not supported''), w1)
          else
            (case info_for vault query of
               Inl e \<Rightarrow> (Throws e, w1)
             | Inr info' \<Rightarrow>
                 (let id' = info_id info';
                      source_image = source_image_of id' info'
                  in case lxd_request ''GET'' (vault_base_url vault @ ''/images/'' @ id')
                            None None w1 of
                       (Returns _, w2) \<Rightarrow> (Returns source_image, w2)
                     | (Throws LXDNotFoundException, w2) \<Rightarrow>
                         (case lxd_request ''POST'' (vault_base_url vault @ ''/images'')
                                 (Some [(''source'',
                                         JObject [(''type'', JString ''image''),
                                                  (''mode'', JString ''pull''),
                                                  (''server'', JString (info_stream_location info')),
                                                  (''protocol'', JString ''simplestreams''),
                                                  (''fingerprint'', JString id')])])
                                 None w2 of
                            (Returns json_reply, w3) \<Rightarrow>
                              (case (if is_running_task json_reply
                                     then fetch_poll
                                            (vault_base_url vault @ ''/operations/''
                                              @ toString (value_of
                                                  (toObject (value_of json_reply ''metadata'')) ''id''))
                                            monitor w3
                                     else (Returns (), w3)) of
                                 (Returns _, w4) \<Rightarrow> (Returns source_image, w4)
                               | (Throws e, w4) \<Rightarrow> (Throws e, w4)
                               | (Hangs, w4) \<Rightarrow> (Hangs, w4))
                          | (Throws e, w3) \<Rightarrow> (Throws e, w3)
                          | (Hangs, w3) \<Rightarrow> (Hangs, w3))
                     | (Throws e, w2) \<Rightarrow> (Throws e, w2)
                     | (Hangs, w2) \<Rightarrow> (Hangs, w2))))"

section \<open>Scripted replies used in the examples\<close>

definition fresh_world :: "reply list \<Rightarrow> world" where
  "fresh_world rs =
     \<lparr>replies = rs, requests = [], sleeps = 0, logs = [], persisted = [], reported = []\<rparr>"

text \<open>The daemon's answer to a GET of an instance's state.\<close>

definition instance_state_reply :: "string \<Rightarrow> int \<Rightarrow> reply" where
  "instance_state_reply status code =
     Reply [(''type'', JString ''sync''), (''status_code'', JNumber 200),
            (''error_code'', JNumber 0),
            (''metadata'', JObject [(''status'', JString status), (''status_code'', JNumber code)])]"

text \<open>The answer that announces an asynchronous operation, and a plain synchronous one.\<close>

definition operation_created :: "string \<Rightarrow> reply" where
  "operation_created op_id =
     Reply [(''type'', JString ''async''), (''status_code'', JNumber 100),
            (''metadata'', JObject [(''id'', JString op_id), (''class'', JString ''task''),
                                    (''status_code'', JNumber 103)])]"

definition sync_done :: reply where
  "sync_done = Reply [(''type'', JString ''sync''), (''status_code'', JNumber 200),
                      (''error_code'', JNumber 0), (''metadata'', JObject [])]"

text \<open>Answers to a GET of an operation: still running, succeeded, failed.\<close>

definition operation_running :: "string \<Rightarrow> reply" where
  "operation_running progress_text =
     Reply [(''type'', JString ''sync''), (''status_code'', JNumber 200),
            (''error_code'', JNumber 0),
            (''metadata'',
             JObject [(''class'', JString ''task''), (''status_code'', JNumber 103),
                      (''metadata'', JObject [(''download_progress'', JString progress_text)])])]"

definition operation_success :: reply where
  "operation_success =
     Reply [(''type'', JString ''sync''), (''status_code'', JNumber 200),
            (''error_code'', JNumber 0),
            (''metadata'', JObject [(''class'', JString ''task''), (''status_code'', JNumber 200)])]"

definition operation_error :: reply where
  "operation_error =
     Reply [(''type'', JString ''error''), (''error_code'', JNumber 500),
            (''error'', JString ''Failed to download image''),
            (''metadata'', JObject [(''class'', JString ''task''), (''status_code'', JNumber 400)])]"

definition example_vm :: "State \<Rightarrow> string option \<Rightarrow> LXDVirtualMachine" where
  "example_vm s a =
     \<lparr>vm_name = ''primary'', name = ''primary'', username = ''ubuntu'', state = s, ip = a,
      port = Some 22, base_url = ''unix:///lxd/1.0''\<rparr>"

definition example_desc :: "int \<Rightarrow> VirtualMachineDescription" where
  "example_desc disk =
     \<lparr>num_cores = 2, mem_size = 1073741824, disk_space = disk, desc_vm_name = ''primary'',
      ssh_username = ''ubuntu'',
      desc_image = \<lparr>image_id = ''abc123'',
                     image_stream_location = ''https://cloud-images.ubuntu.com/releases'',
                     original_release = ''20.04 LTS'', release_date = ''20200423'',
                     image_aliases = [''focal'']\<rparr>,
      meta_data_config = None, user_data_config = None, vendor_data_config = None\<rparr>"

definition example_info :: VMImageInfo where
  "example_info =
     \<lparr>info_aliases = [''focal''], release_title = ''20.04 LTS'', info_id = ''abc123'',
      info_stream_location = ''https://cloud-images.ubuntu.com/releases'',
      version = ''20200423''\<rparr>"

definition example_vault :: LXDVMImageVault where
  "example_vault =
     LXDVMImageVault_new
       [\<lparr>supported_remotes = [''release''],
         host_info_for = (\<lambda>query. Inr (Some example_info)),
         info_for_full_hash = (\<lambda>h. Inl (runtime_error ''no such image''))\<rparr>]
       (\<lambda>remote. True) ''unix:///lxd/1.0''"

definition example_query :: "Type \<Rightarrow> Query" where
  "example_query t =
     \<lparr>query_name = ''primary'', release = ''focal'', remote_name = [], query_type = t\<rparr>"

text \<open>The world after the first state read of \<open>example_vm\<close> in a fresh world.\<close>

definition after_state_read :: "string \<Rightarrow> reply list \<Rightarrow> world" where
  "after_state_read status rs =
     \<lparr>replies = rs,
      requests = [\<lparr>req_method = ''GET'',
                   req_url = ''unix:///lxd/1.0/virtual-machines/primary/state'',
                   req_body = None, req_timeout = None\<rparr>],
      sleeps = 0,
      logs = [(trace, ''primary'', ''Got LXD container state: primary is '' @ status)],
      persisted = [], reported = []\<rparr>"

text \<open>The world after \<open>stop\<close> has run on \<open>example_vm\<close> in a fresh world.\<close>

definition after_stop :: "reply list \<Rightarrow> request list \<Rightarrow> world" where
  "after_stop rs extra =
     \<lparr>replies = rs,
      requests = [\<lparr>req_method = ''GET'',
                   req_url = ''unix:///lxd/1.0/virtual-machines/primary/state'',
                   req_body = None, req_timeout = None\<rparr>,
                  \<lparr>req_method = ''PUT'',
                   req_url = ''unix:///lxd/1.0/virtual-machines/primary/state'',
                   req_body = Some [(''action'', JString ''stop'')],
                   req_timeout = Some 5000\<rparr>] @ extra,
      sleeps = 0,
      logs = [(trace, ''primary'', ''Got LXD container state: primary is Running'')],
      persisted = [(''primary'', stopped)], reported = []\<rparr>"

text \<open>
  The vocabulary of the polling claims, read off the loops' own tests: a reply that
  makes the loop sleep and poll again, and a reply on which the loop stops normally.
\<close>

fun in_progress :: "reply \<Rightarrow> bool" where
  "in_progress (Reply task_reply) =
     (toInt (value_of task_reply ''error_code'') (- 1) = 0
      \<and> toInt (value_of (toObject (value_of task_reply ''metadata'')) ''status_code'') (- 1) \<noteq> 200)"
| "in_progress _ = False"

fun ends_polling :: "reply \<Rightarrow> bool" where
  "ends_polling (Reply task_reply) =
     (toInt (value_of task_reply ''error_code'') (- 1) \<noteq> 0
      \<or> toInt (value_of (toObject (value_of task_reply ''metadata'')) ''status_code'') (- 1) = 200)"
| "ends_polling NotFound = True"
| "ends_polling Failure = False"

text \<open>The request with which \<open>fetch_image\<close> asks the daemon to pull an image.\<close>

definition pull_request :: "string \<Rightarrow> VMImageInfo \<Rightarrow> request" where
  "pull_request base info' =
     \<lparr>req_method = ''POST'', req_url = base @ ''/images'',
      req_body = Some [(''source'',
                        JObject [(''type'', JString ''image''),
                                 (''mode'', JString ''pull''),
                                 (''server'', JString (info_stream_location info')),
                                 (''protocol'', JString ''simplestreams''),
                                 (''fingerprint'', JString (info_id info'))])],
      req_timeout = None\<rparr>"

text \<open>The percentage the loop of \<open>fetch_image\<close> reports for a reply.\<close>

fun download_progress_of :: "reply \<Rightarrow> int" where
  "download_progress_of (Reply task_reply) =
     parse_percent_as_int
       (toString (value_of (toObject (value_of
          (toObject (value_of task_reply ''metadata'')) ''metadata''))
          ''download_progress''))"
| "download_progress_of _ = - 1"

section \<open>What a request and a state read do to the world\<close>

lemma lxd_request_Nil:
  "replies w = [] \<Longrightarrow> lxd_request m u b t w =
     (Hangs, w\<lparr>requests := requests w @ [\<lparr>req_method = m, req_url = u, req_body = b, req_timeout = t\<rparr>]\<rparr>)"
  by (simp add: lxd_request_def)

lemma lxd_request_Reply:
  "replies w = Reply j # rs \<Longrightarrow> lxd_request m u b t w =
     (Returns j, w\<lparr>requests := requests w @ [\<lparr>req_method = m, req_url = u, req_body = b, req_timeout = t\<rparr>],
                   replies := rs\<rparr>)"
  by (simp add: lxd_request_def)

lemma lxd_request_NotFound:
  "replies w = NotFound # rs \<Longrightarrow> lxd_request m u b t w =
     (Throws LXDNotFoundException,
      w\<lparr>requests := requests w @ [\<lparr>req_method = m, req_url = u, req_body = b, req_timeout = t\<rparr>],
        replies := rs\<rparr>)"
  by (simp add: lxd_request_def)

lemma lxd_request_Failure:
  "replies w = Failure # rs \<Longrightarrow> lxd_request m u b t w =
     (Throws LXDRequestFailure,
      w\<lparr>requests := requests w @ [\<lparr>req_method = m, req_url = u, req_body = b, req_timeout = t\<rparr>],
        replies := rs\<rparr>)"
  by (simp add: lxd_request_def)

lemma lxd_request_effect:
  "lxd_request m u b t w = (r, w') \<Longrightarrow>
     requests w' = requests w @ [\<lparr>req_method = m, req_url = u, req_body = b, req_timeout = t\<rparr>]
     \<and> replies w' = tl (replies w) \<and> sleeps w' = sleeps w \<and> logs w' = logs w
     \<and> persisted w' = persisted w \<and> reported w' = reported w"
  by (auto simp: lxd_request_def Let_def split: list.splits reply.splits)

lemma instance_state_for_effect:
  "instance_state_for n u w = (r, w') \<Longrightarrow>
     requests w' = requests w @ [\<lparr>req_method = ''GET'', req_url = u, req_body = None, req_timeout = None\<rparr>]
     \<and> replies w' = tl (replies w) \<and> sleeps w' = sleeps w
     \<and> persisted w' = persisted w \<and> reported w' = reported w"
  unfolding instance_state_for_def
  by (auto simp: Let_def log_def split: prod.splits result.splits if_splits dest!: lxd_request_effect)

lemma current_state_effect:
  assumes "current_state vm w = (r, vm1, w1)"
  shows "requests w1 = requests w @ [\<lparr>req_method = ''GET'', req_url = state_url vm, req_body = None, req_timeout = None\<rparr>]
     \<and> replies w1 = tl (replies w) \<and> sleeps w1 = sleeps w
     \<and> persisted w1 = persisted w \<and> reported w1 = reported w"
  using assms unfolding current_state_def
  by (auto split: prod.splits result.splits if_splits dest!: instance_state_for_effect)

lemma current_state_Returns:
  assumes "current_state vm w = (Returns present_state, vm1, w1)"
  shows "vm1 = vm\<lparr>state := present_state\<rparr>"
  using assms unfolding current_state_def
  by (auto split: prod.splits result.splits if_splits)

section \<open>Properties of the download-progress parser\<close>

lemma first_some_map:
  "first_some (map f ks) = Some x \<Longrightarrow> \<exists>k. k \<in> set ks \<and> f k = Some x"
proof (induction ks)
  case Nil
  then show ?case by simp
next
  case (Cons k ks)
  then show ?case by (cases "f k") auto
qed

lemma match_here_item:
  assumes "match_here (Item cls lo hi cap # items) s = Some r"
  shows "\<exists>k c. lo \<le> k \<and> k \<le> hi \<and> k \<le> length s \<and> list_all (in_class cls) (take k s)
           \<and> match_here items (drop k s) = Some c
           \<and> r = (if cap then take k s else []) @ c"
proof -
  from first_some_map[OF assms[unfolded match_here.simps]]
  obtain k where k: "k \<in> set (rev [lo..<Suc hi])"
    and f: "(if k \<le> length s \<and> list_all (in_class cls) (take k s)
              then map_option (\<lambda>c. (if cap then take k s else []) @ c)
                     (match_here items (drop k s))
              else None) = Some r"
    by blast
  from f have ok: "k \<le> length s" "list_all (in_class cls) (take k s)"
    by (auto split: if_splits)
  with f obtain c where "match_here items (drop k s) = Some c"
    "r = (if cap then take k s else []) @ c"
    by auto
  with k ok show ?thesis by auto
qed

text \<open>
  A match of the source's expression at the start of a string: one whitespace
  character, then the captured one to three digits, then the percent sign.
\<close>

lemma match_here_re:
  assumes "match_here re s = Some cap"
  shows "\<exists>w rest. s = w # cap @ CHR ''%'' # rest \<and> is_space w \<and> cap \<noteq> []
           \<and> length cap \<le> 3 \<and> list_all is_digit cap"
proof -
  let ?tail = "[Item Digit 1 3 True, Item (Literal CHR ''%'') 1 1 False]"
  from match_here_item[OF assms[unfolded re_def]] obtain k1 c1 where
    k1: "1 \<le> k1" "k1 \<le> 1" "k1 \<le> length s" "list_all (in_class Whitespace) (take k1 s)"
    and m1: "match_here ?tail (drop k1 s) = Some c1"
    and r1: "cap = c1"
    by auto
  from k1 have k1': "k1 = 1" by simp
  from k1 k1' obtain w t where s: "s = w # t" and w: "is_space w"
    by (cases s) auto
  from m1 s k1' have m1': "match_here ?tail t = Some c1"
    by simp
  from match_here_item[OF m1'] obtain k2 c2 where
    k2: "1 \<le> k2" "k2 \<le> 3" "k2 \<le> length t" "list_all (in_class Digit) (take k2 t)"
    and m2: "match_here [Item (Literal CHR ''%'') 1 1 False] (drop k2 t) = Some c2"
    and r2: "c1 = take k2 t @ c2"
    by auto
  from match_here_item[OF m2] obtain k3 c3 where
    k3: "1 \<le> k3" "k3 \<le> 1" "k3 \<le> length (drop k2 t)"
      "list_all (in_class (Literal CHR ''%'')) (take k3 (drop k2 t))"
    and m3: "match_here [] (drop k3 (drop k2 t)) = Some c3"
    and r3: "c2 = c3"
    by auto
  from k3 have k3': "k3 = 1" by simp
  from m3 r3 have c2: "c2 = []" by simp
  from k3 k3' obtain rest where d: "drop k2 t = CHR ''%'' # rest"
    by (cases "drop k2 t") auto
  have "t = take k2 t @ drop k2 t" by simp
  with d have t: "t = take k2 t @ CHR ''%'' # rest" by simp
  have digs: "list_all is_digit (take k2 t)"
    using k2(4) by (simp add: list_all_iff del: is_digit.simps)
  have ne: "take k2 t \<noteq> []" using k2(1,3) by auto
  have len: "length (take k2 t) \<le> 3" using k2(2) by simp
  from r1 r2 c2 have "cap = take k2 t" by simp
  with s t w digs ne len show ?thesis by metis
qed

lemma has_percent_token_Cons: "has_percent_token cs \<Longrightarrow> has_percent_token (c # cs)"
  by (cases cs) auto

lemma has_percent_token_append:
  "ds \<noteq> [] \<Longrightarrow> list_all is_digit ds \<Longrightarrow> has_percent_token (ds @ CHR ''%'' # rest)"
proof (induction ds)
  case Nil
  then show ?case by simp
next
  case (Cons d ds)
  show ?case
  proof (cases ds)
    case Nil
    with Cons.prems show ?thesis by simp
  next
    case (Cons e es)
    with Cons.IH Cons.prems have "has_percent_token (ds @ CHR ''%'' # rest)" by simp
    then show ?thesis using has_percent_token_Cons by simp
  qed
qed

lemma no_percent_no_token: "CHR ''%'' \<notin> set s \<Longrightarrow> \<not> has_percent_token s"
  by (induction s rule: has_percent_token.induct) auto

text \<open>Where the leftmost match lies in the whole string.\<close>

lemma re_match_re:
  "re_match re s = Some cap \<Longrightarrow>
     \<exists>pre w rest. s = pre @ w # cap @ CHR ''%'' # rest \<and> is_space w \<and> cap \<noteq> []
       \<and> length cap \<le> 3 \<and> list_all is_digit cap"
proof (induction s)
  case Nil
  then show ?case by (auto dest: match_here_re)
next
  case (Cons c cs)
  show ?case
  proof (cases "match_here re (c # cs)")
    case None
    with Cons.prems have "re_match re cs = Some cap" by simp
    from Cons.IH[OF this] obtain pre w rest where
      "cs = pre @ w # cap @ CHR ''%'' # rest"
      and *: "is_space w" "cap \<noteq> []" "length cap \<le> 3" "list_all is_digit cap"
      by blast
    then have "c # cs = (c # pre) @ w # cap @ CHR ''%'' # rest" by simp
    with * show ?thesis by blast
  next
    case (Some a)
    with Cons.prems have "a = cap" by simp
    with Some obtain w rest where
      "c # cs = [] @ w # cap @ CHR ''%'' # rest"
      and *: "is_space w" "cap \<noteq> []" "length cap \<le> 3" "list_all is_digit cap"
      using match_here_re[of "c # cs" cap] by auto
    with * show ?thesis by blast
  qed
qed

lemma re_match_token: "re_match re s = Some cap \<Longrightarrow> has_percent_token s"
proof -
  assume "re_match re s = Some cap"
  from re_match_re[OF this] obtain pre w rest where
    s: "s = pre @ w # cap @ CHR ''%'' # rest" and c: "cap \<noteq> []" "list_all is_digit cap"
    by blast
  have "has_percent_token (pre @ w # cap @ CHR ''%'' # rest)"
  proof (induction pre)
    case Nil
    show ?case
      using has_percent_token_Cons[OF has_percent_token_append[OF c]] by simp
  next
    case (Cons p pre)
    then show ?case using has_percent_token_Cons by simp
  qed
  with s show ?thesis by simp
qed

lemma digit_not_space: "is_digit c \<Longrightarrow> \<not> is_space c"
  by auto

lemma re_match_leading_digits:
  "list_all is_digit ds \<Longrightarrow> \<not> has_percent_token rest
     \<Longrightarrow> re_match re (ds @ CHR ''%'' # rest) = None"
proof (induction ds)
  case Nil
  have "match_here re (CHR ''%'' # rest) = None"
  proof (cases "match_here re (CHR ''%'' # rest)")
    case (Some a)
    from match_here_re[OF this] show ?thesis by auto
  qed simp
  moreover have "re_match re rest = None"
  proof (cases "re_match re rest")
    case (Some a)
    with re_match_token Nil.prems(2) show ?thesis by blast
  qed simp
  ultimately show ?case by simp
next
  case (Cons d ds)
  have "match_here re (d # ds @ CHR ''%'' # rest) = None"
  proof (cases "match_here re (d # ds @ CHR ''%'' # rest)")
    case (Some a)
    from match_here_re[OF this] have "is_space d" by auto
    with Cons.prems(1) digit_not_space show ?thesis by auto
  qed simp
  moreover from Cons.IH Cons.prems have "re_match re (ds @ CHR ''%'' # rest) = None"
    by (simp del: is_digit.simps)
  ultimately show ?case by simp
qed

text \<open>
  C8. The parser maps the status string "Downloading: 42\% (1.2MB/s)" to 42, and every
  string with no percent token (no digit directly before a percent sign; in particular
  no percent sign at all) to the sentinel -1; it is a total function, so it never fails.
\<close>

theorem parse_percent_as_int_progress:
  "parse_percent_as_int ''Downloading: 42% (1.2MB/s)'' = 42
   \<and> (\<forall>s. \<not> has_percent_token s \<longrightarrow> parse_percent_as_int s = - 1)
   \<and> (\<forall>s. CHR ''%'' \<notin> set s \<longrightarrow> parse_percent_as_int s = - 1)"
proof -
  have a: "parse_percent_as_int ''Downloading: 42% (1.2MB/s)'' = 42"
    by code_simp
  have b: "parse_percent_as_int s = - 1" if "\<not> has_percent_token s" for s
  proof (cases "re_match re s")
    case None
    then show ?thesis by (simp add: parse_percent_as_int_def)
  next
    case (Some cap)
    with re_match_token that show ?thesis by blast
  qed
  from a b no_percent_no_token show ?thesis by blast
qed

theorem parse_percent_as_int_progress_witness:
  "\<not> has_percent_token ''Unpacking image'' \<and> parse_percent_as_int ''Unpacking image'' = - 1
   \<and> CHR ''%'' \<notin> set ''Retrieving image'' \<and> parse_percent_as_int ''Retrieving image'' = - 1"
proof -
  have h1: "\<not> has_percent_token ''Unpacking image''" by simp
  have h2: "CHR ''%'' \<notin> set ''Retrieving image''" by simp
  from parse_percent_as_int_progress h1 h2 show ?thesis by blast
qed

text \<open>
  C10. The parser finds a percent token only when its one to three digits directly
  follow a whitespace character: whenever the result is not the sentinel, the string
  holds a whitespace character, then one to three digits, then the percent sign; and a
  string whose only token stands at its very beginning (digits, the percent sign, and a
  remainder with no token, as in "42\% done") gives -1.
\<close>

theorem parse_percent_as_int_leading_space:
  "(parse_percent_as_int s \<noteq> - 1 \<longrightarrow>
      (\<exists>pre w cap post. s = pre @ w # cap @ CHR ''%'' # post \<and> is_space w \<and> cap \<noteq> []
         \<and> length cap \<le> 3 \<and> list_all is_digit cap))
   \<and> (list_all is_digit ds \<and> \<not> has_percent_token rest \<longrightarrow>
        parse_percent_as_int (ds @ CHR ''%'' # rest) = - 1)"
proof (intro conjI impI)
  assume "parse_percent_as_int s \<noteq> - 1"
  then obtain cap where "re_match re s = Some cap"
    by (auto simp: parse_percent_as_int_def split: option.splits)
  from re_match_re[OF this]
  show "\<exists>pre w cap post. s = pre @ w # cap @ CHR ''%'' # post \<and> is_space w \<and> cap \<noteq> []
         \<and> length cap \<le> 3 \<and> list_all is_digit cap"
    by blast
next
  assume "list_all is_digit ds \<and> \<not> has_percent_token rest"
  then have "re_match re (ds @ CHR ''%'' # rest) = None"
    using re_match_leading_digits by blast
  then show "parse_percent_as_int (ds @ CHR ''%'' # rest) = - 1"
    by (simp add: parse_percent_as_int_def)
qed

theorem parse_percent_as_int_leading_space_witness:
  "list_all is_digit ''42'' \<and> \<not> has_percent_token '' done''
   \<and> parse_percent_as_int ''42% done'' = - 1
   \<and> parse_percent_as_int ''Downloading: 42% (1.2MB/s)'' \<noteq> - 1
   \<and> (\<exists>pre w cap post. ''Downloading: 42% (1.2MB/s)'' = pre @ w # cap @ CHR ''%'' # post
         \<and> is_space w \<and> cap \<noteq> [] \<and> length cap \<le> 3 \<and> list_all is_digit cap)"
proof -
  have h1: "list_all is_digit ''42'' \<and> \<not> has_percent_token '' done''" by simp
  have h2: "parse_percent_as_int ''Downloading: 42% (1.2MB/s)'' \<noteq> - 1" by code_simp
  from parse_percent_as_int_leading_space[where ds = "''42''" and rest = "'' done''"
      and s = "''Downloading: 42% (1.2MB/s)''"]
  have "parse_percent_as_int ''Downloading: 42% (1.2MB/s)'' \<noteq> - 1 \<longrightarrow>
      (\<exists>pre w cap post. ''Downloading: 42% (1.2MB/s)'' = pre @ w # cap @ CHR ''%'' # post
         \<and> is_space w \<and> cap \<noteq> [] \<and> length cap \<le> 3 \<and> list_all is_digit cap)"
    and "list_all is_digit ''42'' \<and> \<not> has_percent_token '' done'' \<longrightarrow>
        parse_percent_as_int (''42'' @ CHR ''%'' # '' done'') = - 1"
    by blast+
  with h1 h2 show ?thesis by simp
qed

section \<open>Properties of the state mapper\<close>

lemma instance_state_for_Reply:
  assumes "replies w = Reply json_reply # rest"
  shows "instance_state_for n u w =
     (let w1 = w\<lparr>requests := requests w @ [\<lparr>req_method = ''GET'', req_url = u, req_body = None, req_timeout = None\<rparr>],
                   replies := rest\<rparr>;
          metadata = toObject (value_of json_reply ''metadata'');
          w2 = log trace n
                      (''Got LXD container state: '' @ n @ '' is ''
                        @ toString (value_of metadata ''status'')) w1;
               status_code = toInt (value_of metadata ''status_code'') (- 1)
           in if status_code = 101 \<or> status_code = 103 \<or> status_code = 107 \<or> status_code = 111
              then (Returns running, w2)
              else if status_code = 102 then (Returns stopped, w2)
              else if status_code = 106 then (Returns starting, w2)
              else if status_code = 109 then (Returns suspending, w2)
              else if status_code = 110 then (Returns suspended, w2)
              else if status_code = 104 \<or> status_code = 108 then (Returns unknown, w2)
              else (Returns unknown,
                    log error n
                      (''Got unexpected LXD state: '' @ toString (value_of metadata ''status_code'')
                        @ '' ('' @ QString_number (toInt (value_of metadata ''status'') 0) @ '')'')
                      w2))"
  unfolding instance_state_for_def lxd_request_Reply[OF assms] by simp


lemma instance_state_for_mapping:
  assumes "replies w = Reply json_reply # rest"
    and "c = toInt (value_of (toObject (value_of json_reply ''metadata'')) ''status_code'') (- 1)"
  shows "fst (instance_state_for n u w) =
           Returns (if c = 101 \<or> c = 103 \<or> c = 107 \<or> c = 111 then running
                    else if c = 102 then stopped
                    else if c = 106 then starting
                    else if c = 109 then suspending
                    else if c = 110 then suspended
                    else unknown)"
  unfolding instance_state_for_Reply[OF assms(1)] Let_def assms(2)[symmetric]
  by (simp only: if_distrib[of fst] if_distrib[of Returns] fst_conv if_cancel)

lemma instance_state_for_error_lines:
  assumes "replies w = Reply json_reply # rest"
    and "c = toInt (value_of (toObject (value_of json_reply ''metadata'')) ''status_code'') (- 1)"
  shows "length (filter (\<lambda>l. fst l = error) (logs (snd (instance_state_for n u w))))
           = length (filter (\<lambda>l. fst l = error) (logs w))
             + (if c \<in> {101, 102, 103, 104, 106, 107, 108, 109, 110, 111} then 0 else 1)"
proof (cases "c \<in> {101, 102, 103, 104, 106, 107, 108, 109, 110, 111}")
  case True
  then consider "c = 101" | "c = 102" | "c = 103" | "c = 104" | "c = 106" | "c = 107"
    | "c = 108" | "c = 109" | "c = 110" | "c = 111"
    by blast
  then show ?thesis
    unfolding instance_state_for_Reply[OF assms(1)] Let_def assms(2)[symmetric]
    by cases (simp_all add: log_def)
next
  case False
  then show ?thesis
    unfolding instance_state_for_Reply[OF assms(1)] Let_def assms(2)[symmetric]
    by (simp add: log_def)
qed

text \<open>
  C2. For a reply whose status code is not one the mapper knows (112, "Error"), the
  mapper returns \<open>unknown\<close> and adds one line at error level, but the line is built from
  \<open>status_code\<close> read as a string and \<open>status\<close> read as an integer, so it carries
  neither: the text is "Got unexpected LXD state:  (0)".
\<close>

theorem instance_state_for_unexpected:
  "instance_state_for ''primary'' ''unix:///lxd/1.0/virtual-machines/primary/state''
     (fresh_world [instance_state_reply ''Error'' 112])
   = (Returns unknown,
      \<lparr>replies = [],
       requests = [\<lparr>req_method = ''GET'',
                    req_url = ''unix:///lxd/1.0/virtual-machines/primary/state'',
                    req_body = None, req_timeout = None\<rparr>],
       sleeps = 0,
       logs = [(trace, ''primary'', ''Got LXD container state: primary is Error''),
               (error, ''primary'', ''Got unexpected LXD state:  (0)'')],
       persisted = [], reported = []\<rparr>)"
  by (simp add: instance_state_for_def fresh_world_def instance_state_reply_def lxd_request_def
      value_of_def log_def QString_number_def decimal.simps)

section \<open>Properties of the instance controller\<close>

lemma request_state_Reply:
  "replies w = Reply j # rest \<Longrightarrow> request_state a vm w =
     (Returns j,
      w\<lparr>requests := requests w @
           [\<lparr>req_method = ''PUT'', req_url = state_url vm,
             req_body = Some [(''action'', JString a)], req_timeout = Some 5000\<rparr>],
        replies := rest\<rparr>)"
  by (simp add: request_state_def lxd_request_Reply)

lemma state_url_state [simp]: "state_url (vm\<lparr>state := s\<rparr>) = state_url vm"
  by (simp add: state_url_def url_def)

lemmas example_read_defs =
  current_state_def instance_state_for_def fresh_world_def instance_state_reply_def
  lxd_request_def value_of_def log_def example_vm_def state_url_def url_def after_state_read_def

lemma read_running:
  "current_state (example_vm stopped a) (fresh_world (instance_state_reply st 103 # rs))
     = (Returns running, example_vm running a, after_state_read st rs)"
  by (simp add: example_read_defs)

lemma read_suspending:
  "current_state (example_vm stopped a) (fresh_world (instance_state_reply st 109 # rs))
     = (Returns suspending, example_vm suspending a, after_state_read st rs)"
  by (simp add: example_read_defs)

lemma read_suspended:
  "current_state (example_vm stopped a) (fresh_world (instance_state_reply st 110 # rs))
     = (Returns suspended, example_vm suspended a, after_state_read st rs)"
  by (simp add: example_read_defs)

lemma read_stopped:
  "current_state (example_vm stopped a) (fresh_world (instance_state_reply st 102 # rs))
     = (Returns stopped, example_vm stopped a, after_state_read st rs)"
  by (simp add: example_read_defs)

lemma read_kept:
  "s = starting \<or> s = delayed_shutdown \<Longrightarrow>
   current_state (example_vm s a) (fresh_world (instance_state_reply st 103 # rs))
     = (Returns s, example_vm s a, after_state_read st rs)"
  by (auto simp add: example_read_defs)

lemma read_from_running:
  "current_state (example_vm running a) (fresh_world (instance_state_reply st 103 # rs))
     = (Returns running, example_vm running a, after_state_read st rs)"
  by (simp add: example_read_defs)

lemma state_reply_example:
  "instance_state_for (name (example_vm s a)) (state_url (example_vm s a))
     (fresh_world (instance_state_reply st 103 # rs))
   = (Returns running, after_state_read st rs)"
  by (simp add: example_read_defs)

text \<open>
  C3. \<open>start\<close> first reads the state; what it then does depends only on the observed
  state. Observed \<open>running\<close>: nothing more happens and the state is \<open>running\<close>.
  Observed \<open>suspending\<close>: it throws the invalid-operation error and the state stays
  \<open>suspending\<close>. Observed \<open>suspended\<close>: it sends the action "unfreeze"; observed anything
  else: it sends the action "start". In both cases, as soon as the request returns, the
  local state is \<open>starting\<close> and that state is handed to the status monitor.
\<close>

theorem start_state_machine:
  assumes "current_state vm w = (Returns present_state, vm1, w1)"
  shows "state vm1 = present_state
    \<and> requests w1 = requests w @ [\<lparr>req_method = ''GET'', req_url = state_url vm,
                                   req_body = None, req_timeout = None\<rparr>]
    \<and> persisted w1 = persisted w
    \<and> (present_state = running \<longrightarrow> start vm w = (Returns (), vm1, w1))
    \<and> (present_state = suspending \<longrightarrow>
         start vm w = (Throws (runtime_error ''cannot start the instance while suspending''), vm1, w1))
    \<and> (present_state \<noteq> running \<and> present_state \<noteq> suspending \<longrightarrow>
        (\<forall>json rest. replies w1 = Reply json # rest \<longrightarrow>
           (\<exists>w'. start vm w = (Returns (), vm1\<lparr>state := starting\<rparr>, w')
              \<and> requests w' = requests w1 @
                    [\<lparr>req_method = ''PUT'', req_url = state_url vm,
                      req_body = Some [(''action'',
                         JString (if present_state = suspended then ''unfreeze'' else ''start''))],
                      req_timeout = Some 5000\<rparr>]
              \<and> persisted w' = persisted w1 @ [(vm_name vm, starting)])))"
proof -
  from current_state_Returns[OF assms] have vm1: "vm1 = vm\<lparr>state := present_state\<rparr>" .
  then have st: "state vm1 = present_state" by simp
  from current_state_effect[OF assms]
  have eff: "requests w1 = requests w @ [\<lparr>req_method = ''GET'', req_url = state_url vm,
                                   req_body = None, req_timeout = None\<rparr>]"
      "persisted w1 = persisted w"
    by simp_all
  have run: "start vm w = (Returns (), vm1, w1)" if "present_state = running"
    using that assms by (simp add: start_def)
  have susp: "start vm w = (Throws (runtime_error ''cannot start the instance while suspending''), vm1, w1)"
    if "present_state = suspending"
    using that assms by (simp add: start_def)
  have act: "\<exists>w'. start vm w = (Returns (), vm1\<lparr>state := starting\<rparr>, w')
              \<and> requests w' = requests w1 @
                    [\<lparr>req_method = ''PUT'', req_url = state_url vm,
                      req_body = Some [(''action'',
                         JString (if present_state = suspended then ''unfreeze'' else ''start''))],
                      req_timeout = Some 5000\<rparr>]
              \<and> persisted w' = persisted w1 @ [(vm_name vm, starting)]"
    if ps: "present_state \<noteq> running" "present_state \<noteq> suspending"
      and r: "replies w1 = Reply json # rest" for json rest
  proof (cases "present_state = suspended")
    case True
    have "replies (log info (vm_name vm1) ''Resuming from a suspended state'' w1) = Reply json # rest"
      using r by (simp add: log_def)
    from request_state_Reply[OF this] True ps assms st vm1 show ?thesis
      by (simp add: start_def update_state_def log_def)
  next
    case False
    from request_state_Reply[OF r] False ps assms st vm1 show ?thesis
      by (simp add: start_def update_state_def)
  qed
  from st eff run susp act show ?thesis by blast
qed


theorem start_state_machine_witness:
  "start (example_vm stopped None) (fresh_world [instance_state_reply ''Running'' 103, sync_done])
     = (Returns (), example_vm running None, after_state_read ''Running'' [sync_done])
   \<and> start (example_vm stopped None) (fresh_world [instance_state_reply ''Freezing'' 109, sync_done])
     = (Throws (runtime_error ''cannot start the instance while suspending''),
        example_vm suspending None, after_state_read ''Freezing'' [sync_done])
   \<and> (\<exists>w'. start (example_vm stopped None)
               (fresh_world [instance_state_reply ''Frozen'' 110, sync_done])
             = (Returns (), example_vm starting None, w')
          \<and> requests w' =
               [\<lparr>req_method = ''GET'',
                 req_url = ''unix:///lxd/1.0/virtual-machines/primary/state'',
                 req_body = None, req_timeout = None\<rparr>,
                \<lparr>req_method = ''PUT'',
                 req_url = ''unix:///lxd/1.0/virtual-machines/primary/state'',
                 req_body = Some [(''action'', JString ''unfreeze'')],
                 req_timeout = Some 5000\<rparr>]
          \<and> persisted w' = [(''primary'', starting)])
   \<and> (\<exists>w'. start (example_vm stopped None)
               (fresh_world [instance_state_reply ''Stopped'' 102, sync_done])
             = (Returns (), example_vm starting None, w')
          \<and> requests w' =
               [\<lparr>req_method = ''GET'',
                 req_url = ''unix:///lxd/1.0/virtual-machines/primary/state'',
                 req_body = None, req_timeout = None\<rparr>,
                \<lparr>req_method = ''PUT'',
                 req_url = ''unix:///lxd/1.0/virtual-machines/primary/state'',
                 req_body = Some [(''action'', JString ''start'')],
                 req_timeout = Some 5000\<rparr>]
          \<and> persisted w' = [(''primary'', starting)])"
proof -
  have a: "start (example_vm stopped None) (fresh_world [instance_state_reply ''Running'' 103, sync_done])
     = (Returns (), example_vm running None, after_state_read ''Running'' [sync_done])"
    using start_state_machine[OF read_running[of None "''Running''" "[sync_done]"]] by simp
  have b: "start (example_vm stopped None) (fresh_world [instance_state_reply ''Freezing'' 109, sync_done])
     = (Throws (runtime_error ''cannot start the instance while suspending''),
        example_vm suspending None, after_state_read ''Freezing'' [sync_done])"
    using start_state_machine[OF read_suspending[of None "''Freezing''" "[sync_done]"]] by simp
  have c: "\<exists>w'. start (example_vm stopped None)
               (fresh_world [instance_state_reply ''Frozen'' 110, sync_done])
             = (Returns (), example_vm starting None, w')
          \<and> requests w' =
               [\<lparr>req_method = ''GET'',
                 req_url = ''unix:///lxd/1.0/virtual-machines/primary/state'',
                 req_body = None, req_timeout = None\<rparr>,
                \<lparr>req_method = ''PUT'',
                 req_url = ''unix:///lxd/1.0/virtual-machines/primary/state'',
                 req_body = Some [(''action'', JString ''unfreeze'')],
                 req_timeout = Some 5000\<rparr>]
          \<and> persisted w' = [(''primary'', starting)]"
    using start_state_machine[OF read_suspended[of None "''Frozen''" "[sync_done]"]]
    by (simp add: example_vm_def state_url_def url_def sync_done_def fresh_world_def
        after_state_read_def)
  have d: "\<exists>w'. start (example_vm stopped None)
               (fresh_world [instance_state_reply ''Stopped'' 102, sync_done])
             = (Returns (), example_vm starting None, w')
          \<and> requests w' =
               [\<lparr>req_method = ''GET'',
                 req_url = ''unix:///lxd/1.0/virtual-machines/primary/state'',
                 req_body = None, req_timeout = None\<rparr>,
                \<lparr>req_method = ''PUT'',
                 req_url = ''unix:///lxd/1.0/virtual-machines/primary/state'',
                 req_body = Some [(''action'', JString ''start'')],
                 req_timeout = Some 5000\<rparr>]
          \<and> persisted w' = [(''primary'', starting)]"
    using start_state_machine[OF read_stopped[of None "''Stopped''" "[sync_done]"]]
    by (simp add: example_vm_def state_url_def url_def sync_done_def fresh_world_def
        after_state_read_def)
  from a b c d show ?thesis by blast
qed

text \<open>
  C6, as amended. When the remote state is read again, a local \<open>starting\<close>, or a local
  \<open>delayed_shutdown\<close> while the remote reports \<open>running\<close>, is kept (so a local
  \<open>starting\<close> never regresses through a read); in every other case the remote value
  overwrites the local state. The read itself hands nothing to the status monitor: that
  is \<open>update_state\<close>, which \<open>start\<close> and \<open>stop\<close> call afterwards.
\<close>

theorem current_state_precedence:
  assumes "instance_state_for (name vm) (state_url vm) w = (Returns remote, w1)"
  shows "(state vm = starting \<or> (state vm = delayed_shutdown \<and> remote = running) \<longrightarrow>
            current_state vm w = (Returns (state vm), vm, w1))
       \<and> (state vm \<noteq> starting \<and> \<not> (state vm = delayed_shutdown \<and> remote = running) \<longrightarrow>
            current_state vm w = (Returns remote, vm\<lparr>state := remote\<rparr>, w1))
       \<and> persisted w1 = persisted w"
  using assms instance_state_for_effect[OF assms] by (auto simp: current_state_def)


theorem current_state_precedence_witness:
  "current_state (example_vm starting None) (fresh_world [instance_state_reply ''Running'' 103])
     = (Returns starting, example_vm starting None, after_state_read ''Running'' [])
   \<and> current_state (example_vm delayed_shutdown None)
        (fresh_world [instance_state_reply ''Running'' 103])
     = (Returns delayed_shutdown, example_vm delayed_shutdown None, after_state_read ''Running'' [])
   \<and> current_state (example_vm stopped None) (fresh_world [instance_state_reply ''Running'' 103])
     = (Returns running, example_vm running None, after_state_read ''Running'' [])
   \<and> persisted (after_state_read ''Running'' []) = persisted (fresh_world [instance_state_reply ''Running'' 103])"
proof -
  have *: "example_vm s None\<lparr>state := t\<rparr> = example_vm t None" for s t
    by (simp add: example_vm_def)
  have s: "state (example_vm s None) = s" for s by (simp add: example_vm_def)
  from current_state_precedence[OF state_reply_example[of starting None "''Running''" "[]"]]
    current_state_precedence[OF state_reply_example[of delayed_shutdown None "''Running''" "[]"]]
    current_state_precedence[OF state_reply_example[of stopped None "''Running''" "[]"]]
  show ?thesis by (simp add: * s)
qed

text \<open>
  C6 as stated fails: a read that overwrites a local \<open>stopped\<close> with the remote
  \<open>running\<close> leaves the list of states handed to the status monitor empty.
\<close>

theorem current_state_no_notification:
  "state (example_vm stopped None) = stopped
   \<and> fst (current_state (example_vm stopped None)
          (fresh_world [instance_state_reply ''Running'' 103])) = Returns running
   \<and> state (fst (snd (current_state (example_vm stopped None)
          (fresh_world [instance_state_reply ''Running'' 103])))) = running
   \<and> persisted (fresh_world [instance_state_reply ''Running'' 103]) = []
   \<and> persisted (snd (snd (current_state (example_vm stopped None)
          (fresh_world [instance_state_reply ''Running'' 103])))) = []"
  by (simp add: current_state_def instance_state_for_def fresh_world_def instance_state_reply_def
      lxd_request_def value_of_def log_def example_vm_def state_url_def url_def)

lemma state_wait_wait_pred:
  "state_wait_wait pred others vw = Some (vm', w') \<Longrightarrow> pred vm'"
proof (induction others arbitrary: vw)
  case Nil
  then show ?case by (cases vw) (auto split: if_splits)
next
  case (Cons other rest)
  then show ?case by (cases vw) (auto split: if_splits)
qed

text \<open>
  What a completed \<open>stop\<close> does establish. Whenever it returns after observing
  \<open>running\<close>, \<open>delayed_shutdown\<close> or \<open>starting\<close>, the local state is \<open>stopped\<close>, the
  member \<open>port\<close> is cleared and \<open>stopped\<close> is the last state handed to the status
  monitor; from \<open>running\<close> or \<open>delayed_shutdown\<close> the member \<open>ip\<close> is what it was
  before the call.
\<close>

lemma stop_completes:
  assumes "current_state vm w = (Returns present_state, vm1, w1)"
    and "present_state = running \<or> present_state = delayed_shutdown \<or> present_state = starting"
    and "stop others vm w = (Returns (), vm', w')"
  shows "state vm' = stopped \<and> port vm' = None
       \<and> persisted w' \<noteq> [] \<and> last (persisted w') = (vm_name vm', stopped)
       \<and> (present_state \<noteq> starting \<longrightarrow> ip vm' = ip vm \<and> persisted w' = persisted w @ [(vm_name vm, stopped)])"
proof -
  from current_state_Returns[OF assms(1)] have vm1: "vm1 = vm\<lparr>state := present_state\<rparr>" .
  from current_state_effect[OF assms(1)] have p1: "persisted w1 = persisted w" by simp
  show ?thesis
  proof (cases "present_state = starting")
    case True
    with assms(1,3) obtain w2 vm3 w3 where
      "state_wait_wait (\<lambda>v. state v = stopped) others (vm1\<lparr>state := off\<rparr>, w2) = Some (vm3, w3)"
      and "vm' = vm3\<lparr>port := None\<rparr>" and "w' = update_state (vm3\<lparr>port := None\<rparr>) w3"
      by (auto simp: stop_def Let_def split: prod.splits result.splits option.splits)
    with state_wait_wait_pred[OF this(1)] True show ?thesis
      by (simp add: update_state_def)
  next
    case False
    with assms(2) have ps: "present_state = running \<or> present_state = delayed_shutdown" by simp
    with assms(1,3) obtain w3 where
      "vm' = vm1\<lparr>state := stopped, port := None\<rparr>"
      and "w' = update_state (vm1\<lparr>state := stopped, port := None\<rparr>) w3"
      and "persisted w3 = persisted w1"
      by (auto simp: stop_def Let_def request_state_def
          split: prod.splits result.splits if_splits dest!: lxd_request_effect)
    with vm1 p1 False show ?thesis by (simp add: update_state_def)
  qed
qed



lemmas example_stop_defs =
  stop_def current_state_def instance_state_for_def fresh_world_def
  instance_state_reply_def operation_created_def sync_done_def request_state_def
  lxd_request_def value_of_def log_def example_vm_def state_url_def url_def
  is_running_task_def update_state_def after_stop_def

lemma stop_from_running:
  "stop [] (example_vm running (Some ''10.0.0.5''))
     (fresh_world [instance_state_reply ''Running'' 103, operation_created ''op1'', sync_done])
   = (Returns (),
      \<lparr>vm_name = ''primary'', name = ''primary'', username = ''ubuntu'', state = stopped,
       ip = Some ''10.0.0.5'', port = None, base_url = ''unix:///lxd/1.0''\<rparr>,
      after_stop []
        [\<lparr>req_method = ''GET'', req_url = ''unix:///lxd/1.0/operations/op1/wait'',
          req_body = None, req_timeout = None\<rparr>])"
  by (simp add: example_stop_defs)

lemma stop_from_delayed_shutdown:
  "stop [] (example_vm delayed_shutdown (Some ''10.0.0.5''))
     (fresh_world [instance_state_reply ''Running'' 103, sync_done])
   = (Returns (),
      \<lparr>vm_name = ''primary'', name = ''primary'', username = ''ubuntu'', state = stopped,
       ip = Some ''10.0.0.5'', port = None, base_url = ''unix:///lxd/1.0''\<rparr>,
      after_stop [] [])"
  by (simp add: example_stop_defs)

lemma stop_from_starting:
  "stop [\<lambda>(v, w). (v\<lparr>state := stopped\<rparr>, w)] (example_vm starting (Some ''10.0.0.5''))
     (fresh_world [instance_state_reply ''Running'' 103, sync_done])
   = (Returns (),
      \<lparr>vm_name = ''primary'', name = ''primary'', username = ''ubuntu'', state = stopped,
       ip = Some ''10.0.0.5'', port = None, base_url = ''unix:///lxd/1.0''\<rparr>,
      after_stop [] [])"
  by (simp add: example_stop_defs)

lemma stop_completes_examples:
  "(\<exists>vm' w'. stop [] (example_vm running (Some ''10.0.0.5''))
       (fresh_world [instance_state_reply ''Running'' 103, operation_created ''op1'', sync_done])
        = (Returns (), vm', w')
      \<and> state vm' = stopped \<and> port vm' = None \<and> ip vm' = Some ''10.0.0.5''
      \<and> persisted w' = [(''primary'', stopped)])
   \<and> (\<exists>vm' w'. stop [] (example_vm delayed_shutdown (Some ''10.0.0.5''))
       (fresh_world [instance_state_reply ''Running'' 103, sync_done])
        = (Returns (), vm', w')
      \<and> state vm' = stopped \<and> port vm' = None \<and> ip vm' = Some ''10.0.0.5''
      \<and> persisted w' = [(''primary'', stopped)])
   \<and> (\<exists>vm' w'. stop [\<lambda>(v, w). (v\<lparr>state := stopped\<rparr>, w)] (example_vm starting (Some ''10.0.0.5''))
       (fresh_world [instance_state_reply ''Running'' 103, sync_done])
        = (Returns (), vm', w')
      \<and> state vm' = stopped \<and> port vm' = None \<and> last (persisted w') = (vm_name vm', stopped))"
proof -
  have a: "running = running \<or> running = delayed_shutdown \<or> running = starting" by simp
  have b: "delayed_shutdown = running \<or> delayed_shutdown = delayed_shutdown
             \<or> delayed_shutdown = starting" by simp
  have c: "starting = running \<or> starting = delayed_shutdown \<or> starting = starting" by simp
  have k1: "delayed_shutdown = starting \<or> delayed_shutdown = delayed_shutdown" by simp
  have k2: "starting = starting \<or> starting = delayed_shutdown" by simp
  from stop_completes[OF read_from_running a stop_from_running]
    stop_completes[OF read_kept[OF k1] b stop_from_delayed_shutdown]
    stop_completes[OF read_kept[OF k2] c stop_from_starting]
    stop_from_running stop_from_delayed_shutdown stop_from_starting
  show ?thesis
    by (simp add: example_vm_def fresh_world_def)
qed

text \<open>
  C4. The claim asks that a completed \<open>stop\<close> clears the cached address. The code
  clears \<open>port\<close>, a member nothing reads, and leaves \<open>ip\<close>: after \<open>stop\<close> has
  returned from \<open>running\<close> (through the wait on the stop operation) and from
  \<open>starting\<close> (through the condition wait) the state is \<open>stopped\<close> and the address
  cached before the call is still there, and the next \<open>ipv4\<close> lookup answers from the
  cache without sending a request.
\<close>

theorem stop_keeps_cached_ip:
  "fst (stop [] (example_vm running (Some ''10.0.0.5''))
     (fresh_world [instance_state_reply ''Running'' 103, operation_created ''op1'', sync_done]))
     = Returns ()
   \<and> state (fst (snd (stop [] (example_vm running (Some ''10.0.0.5''))
     (fresh_world [instance_state_reply ''Running'' 103, operation_created ''op1'', sync_done]))))
     = stopped
   \<and> ip (fst (snd (stop [] (example_vm running (Some ''10.0.0.5''))
     (fresh_world [instance_state_reply ''Running'' 103, operation_created ''op1'', sync_done]))))
     = Some ''10.0.0.5''
   \<and> (case stop [] (example_vm running (Some ''10.0.0.5''))
          (fresh_world [instance_state_reply ''Running'' 103, operation_created ''op1'', sync_done])
       of (r, vm', w') \<Rightarrow> ipv4 vm' w' = (Returns ''10.0.0.5'', vm', w'))
   \<and> fst (stop [\<lambda>(v, w). (v\<lparr>state := stopped\<rparr>, w)] (example_vm starting (Some ''10.0.0.5''))
     (fresh_world [instance_state_reply ''Running'' 103, sync_done]))
     = Returns ()
   \<and> state (fst (snd (stop [\<lambda>(v, w). (v\<lparr>state := stopped\<rparr>, w)]
     (example_vm starting (Some ''10.0.0.5''))
     (fresh_world [instance_state_reply ''Running'' 103, sync_done]))))
     = stopped
   \<and> ip (fst (snd (stop [\<lambda>(v, w). (v\<lparr>state := stopped\<rparr>, w)]
     (example_vm starting (Some ''10.0.0.5''))
     (fresh_world [instance_state_reply ''Running'' 103, sync_done]))))
     = Some ''10.0.0.5''
   \<and> (case stop [\<lambda>(v, w). (v\<lparr>state := stopped\<rparr>, w)]
          (example_vm starting (Some ''10.0.0.5''))
          (fresh_world [instance_state_reply ''Running'' 103, sync_done])
       of (r, vm', w') \<Rightarrow> ipv4 vm' w' = (Returns ''10.0.0.5'', vm', w'))"
  by (simp add: stop_from_running stop_from_starting ipv4_def)

section \<open>Properties of creation on construction\<close>

lemma get_minimum_disk_size_max:
  "get_minimum_disk_size requested = max requested (10 * 1024 ^ 3)"
  by (simp add: get_minimum_disk_size_def lxd_min_disk_size_def max_def)

lemma create_root_size:
  "value_of (toObject (value_of (toObject (value_of (create_virtual_machine desc) ''devices''))
      ''root'')) ''size''
   = JString (QString_number (max (disk_space desc) (10 * 1024 ^ 3)))"
  by (simp add: create_virtual_machine_def create_devices_def value_of_def
      get_minimum_disk_size_max)

lemma create_poll_requests:
  "\<exists>more. requests (snd (create_poll u w)) = requests w @ more"
proof (induction u w rule: create_poll.induct)
  case (1 task_url w)
  obtain r w1 where l: "lxd_request ''GET'' task_url None None w = (r, w1)"
    by (cases "lxd_request ''GET'' task_url None None w")
  from lxd_request_effect[OF l] have e: "\<exists>more. requests w1 = requests w @ more" by simp
  show ?case
  proof (cases r)
    case (Returns task_reply)
    show ?thesis
    proof (cases "toInt (value_of task_reply ''error_code'') (- 1) \<noteq> 0
        \<or> toInt (value_of (toObject (value_of task_reply ''metadata'')) ''status_code'') (- 1) = 200")
      case True
      with l Returns e show ?thesis by (auto simp: create_poll.simps[of task_url w])
    next
      case False
      then have a: "\<not> toInt (value_of task_reply ''error_code'') (- 1) \<noteq> 0"
        and b: "toInt (value_of (toObject (value_of task_reply ''metadata'')) ''status_code'') (- 1)
                  \<noteq> 200"
        by auto
      from "1.IH"[OF l[symmetric] Returns a b]
      obtain more where "requests (snd (create_poll task_url (sleep_for_1s w1)))
          = requests (sleep_for_1s w1) @ more"
        by auto
      with e l Returns False show ?thesis
        by (auto simp: create_poll.simps[of task_url w] sleep_for_1s_def)
    qed
  next
    case (Throws x)
    with l e show ?thesis by (cases x) (auto simp: create_poll.simps[of task_url w])
  next
    case Hangs
    with l e show ?thesis by (auto simp: create_poll.simps[of task_url w])
  qed
qed



lemma current_state_NotFound:
  "replies w = NotFound # rest \<Longrightarrow>
     current_state vm w =
       (Throws LXDNotFoundException, vm,
        w\<lparr>requests := requests w @ [\<lparr>req_method = ''GET'', req_url = state_url vm,
                                       req_body = None, req_timeout = None\<rparr>],
          replies := rest\<rparr>)"
  by (simp add: current_state_def instance_state_for_def lxd_request_NotFound)

lemma create_poll_effect:
  "create_poll u w = (r, w') \<Longrightarrow> \<exists>more. requests w' = requests w @ more"
  using create_poll_requests[of u w] by simp

lemma new_requests:
  assumes "replies w = NotFound # rest"
  shows "\<exists>more. requests (snd (LXDVirtualMachine_new desc initial base toJson w)) =
           requests w @
           [\<lparr>req_method = ''GET'',
             req_url = base @ ''/virtual-machines/'' @ desc_vm_name desc @ ''/state'',
             req_body = None, req_timeout = None\<rparr>,
            \<lparr>req_method = ''POST'', req_url = base @ ''/virtual-machines'',
             req_body = Some (create_virtual_machine desc), req_timeout = None\<rparr>] @ more"
proof -
  let ?vm = "\<lparr>vm_name = desc_vm_name desc, name = desc_vm_name desc,
                 username = ssh_username desc, state = initial, ip = None, port = None,
                 base_url = base\<rparr>"
  let ?get = "\<lparr>req_method = ''GET'',
             req_url = base @ ''/virtual-machines/'' @ desc_vm_name desc @ ''/state'',
             req_body = None, req_timeout = None\<rparr>"
  let ?w1 = "w\<lparr>requests := requests w @ [?get], replies := rest\<rparr>"
  have cs: "current_state ?vm w = (Throws LXDNotFoundException, ?vm, ?w1)"
    using current_state_NotFound[OF assms, of ?vm] by (simp add: state_url_def url_def)
  obtain res w' where n: "LXDVirtualMachine_new desc initial base toJson w = (res, w')"
    by (cases "LXDVirtualMachine_new desc initial base toJson w")
  from n have "\<exists>more. requests w' = requests ?w1 @
            [\<lparr>req_method = ''POST'', req_url = base @ ''/virtual-machines'',
             req_body = Some (create_virtual_machine desc), req_timeout = None\<rparr>] @ more"
    unfolding LXDVirtualMachine_new_def Let_def cs
    by (auto simp: log_def
        split: prod.splits result.splits if_splits
        dest!: lxd_request_effect current_state_effect create_poll_effect)
  with n show ?thesis by simp
qed

text \<open>
  C7. The size the create request gives the root disk is the larger of the requested
  disk and 10 GiB, as decimal bytes: 5 GiB requested gives 10 GiB, 20 GiB requested
  stays 20 GiB. The constructor posts that request to \<open>/virtual-machines\<close> right after
  the first state read was answered with not-found.
\<close>

theorem create_request_root_disk:
  "get_minimum_disk_size requested = max requested (10 * 1024 ^ 3)
   \<and> get_minimum_disk_size (5 * 1024 ^ 3) = 10 * 1024 ^ 3
   \<and> get_minimum_disk_size (20 * 1024 ^ 3) = 20 * 1024 ^ 3
   \<and> value_of (toObject (value_of (toObject (value_of (create_virtual_machine desc) ''devices''))
         ''root'')) ''size''
       = JString (QString_number (max (disk_space desc) (10 * 1024 ^ 3)))
   \<and> (replies w = NotFound # rest \<longrightarrow>
        (\<exists>more. requests (snd (LXDVirtualMachine_new desc initial base toJson w)) =
           requests w @
           [\<lparr>req_method = ''GET'',
             req_url = base @ ''/virtual-machines/'' @ desc_vm_name desc @ ''/state'',
             req_body = None, req_timeout = None\<rparr>,
            \<lparr>req_method = ''POST'', req_url = base @ ''/virtual-machines'',
             req_body = Some (create_virtual_machine desc), req_timeout = None\<rparr>] @ more))"
proof -
  have a: "get_minimum_disk_size requested = max requested (10 * 1024 ^ 3)"
    by (rule get_minimum_disk_size_max)
  have b: "get_minimum_disk_size (5 * 1024 ^ 3) = 10 * 1024 ^ 3"
    by (simp add: get_minimum_disk_size_max)
  have c: "get_minimum_disk_size (20 * 1024 ^ 3) = 20 * 1024 ^ 3"
    by (simp add: get_minimum_disk_size_max)
  from a b c create_root_size new_requests show ?thesis by blast
qed

theorem create_request_root_disk_witness:
  "replies (fresh_world [NotFound, sync_done, instance_state_reply ''Stopped'' 102])
     = NotFound # [sync_done, instance_state_reply ''Stopped'' 102]
   \<and> (\<exists>more. requests (snd (LXDVirtualMachine_new (example_desc (5 * 1024 ^ 3)) off
                 ''unix:///lxd/1.0'' (\<lambda>j. ''{}'')
                 (fresh_world [NotFound, sync_done, instance_state_reply ''Stopped'' 102]))) =
           [\<lparr>req_method = ''GET'',
             req_url = ''unix:///lxd/1.0/virtual-machines/primary/state'',
             req_body = None, req_timeout = None\<rparr>,
            \<lparr>req_method = ''POST'', req_url = ''unix:///lxd/1.0/virtual-machines'',
             req_body = Some (create_virtual_machine (example_desc (5 * 1024 ^ 3))),
             req_timeout = None\<rparr>] @ more)
   \<and> value_of (toObject (value_of (toObject (value_of
         (create_virtual_machine (example_desc (5 * 1024 ^ 3))) ''devices'')) ''root'')) ''size''
       = JString ''10737418240''
   \<and> value_of (toObject (value_of (toObject (value_of
         (create_virtual_machine (example_desc (20 * 1024 ^ 3))) ''devices'')) ''root'')) ''size''
       = JString ''21474836480''"
proof -
  have h: "replies (fresh_world [NotFound, sync_done, instance_state_reply ''Stopped'' 102])
     = NotFound # [sync_done, instance_state_reply ''Stopped'' 102]"
    by (simp add: fresh_world_def)
  have n5: "QString_number (max (5 * 1024 ^ 3) (10 * 1024 ^ 3)) = ''10737418240''"
    by (simp add: QString_number_def decimal.simps)
  have n20: "QString_number (max (20 * 1024 ^ 3) (10 * 1024 ^ 3)) = ''21474836480''"
    by (simp add: QString_number_def decimal.simps)
  from create_request_root_disk[where desc = "example_desc (5 * 1024 ^ 3)" and initial = off
      and base = "''unix:///lxd/1.0''" and toJson = "\<lambda>j. ''{}''"
      and w = "fresh_world [NotFound, sync_done, instance_state_reply ''Stopped'' 102]"
      and rest = "[sync_done, instance_state_reply ''Stopped'' 102]"]
    create_request_root_disk[where desc = "example_desc (20 * 1024 ^ 3)"]
    h n5 n20
  show ?thesis
    by (simp add: example_desc_def fresh_world_def)
qed

section \<open>Properties of the task poller\<close>

lemma create_poll_in_progress:
  assumes "in_progress r" "replies w = r # rs"
  shows "create_poll u w =
           create_poll u (w\<lparr>requests := requests w @ [\<lparr>req_method = ''GET'', req_url = u, req_body = None, req_timeout = None\<rparr>], replies := rs,
                            sleeps := Suc (sleeps w)\<rparr>)"
proof -
  from assms(1) obtain j where r: "r = Reply j" by (cases r) auto
  with assms show ?thesis
    by (subst create_poll.simps) (simp add: lxd_request_Reply sleep_for_1s_def)
qed

lemma create_poll_ends:
  assumes "ends_polling r" "replies w = r # rs"
  shows "create_poll u w =
           (Returns (), w\<lparr>requests := requests w @ [\<lparr>req_method = ''GET'', req_url = u, req_body = None, req_timeout = None\<rparr>], replies := rs\<rparr>)"
proof (cases r)
  case (Reply j)
  with assms show ?thesis
    by (subst create_poll.simps) (auto simp add: lxd_request_Reply)
next
  case NotFound
  with assms show ?thesis
    by (subst create_poll.simps) (simp add: lxd_request_NotFound)
next
  case Failure
  with assms show ?thesis by simp
qed

lemma create_poll_script:
  "list_all in_progress pre \<Longrightarrow> ends_polling r \<Longrightarrow> replies w = pre @ r # post \<Longrightarrow>
     create_poll u w =
       (Returns (),
        w\<lparr>requests := requests w @ replicate (Suc (length pre)) \<lparr>req_method = ''GET'', req_url = u, req_body = None, req_timeout = None\<rparr>,
          replies := post, sleeps := sleeps w + length pre\<rparr>)"
proof (induction pre arbitrary: w)
  case Nil
  then show ?case using create_poll_ends[of r w post u] by simp
next
  case (Cons p pre)
  let ?g = "\<lparr>req_method = ''GET'', req_url = u, req_body = None, req_timeout = None\<rparr>"
  let ?w = "w\<lparr>requests := requests w @ [?g], replies := pre @ r # post, sleeps := Suc (sleeps w)\<rparr>"
  from Cons.prems have p: "in_progress p" and pre: "list_all in_progress pre" by simp_all
  from Cons.prems(3) have "replies w = p # (pre @ r # post)" by simp
  from create_poll_in_progress[OF p this] have "create_poll u w = create_poll u ?w" .
  also have "\<dots> = (Returns (),
        ?w\<lparr>requests := requests ?w @ replicate (Suc (length pre)) ?g,
          replies := post, sleeps := sleeps ?w + length pre\<rparr>)"
    by (rule Cons.IH[OF pre Cons.prems(2)]) simp
  also have "\<dots> = (Returns (),
        w\<lparr>requests := requests w @ replicate (Suc (length (p # pre))) ?g,
          replies := post, sleeps := sleeps w + length (p # pre)\<rparr>)"
    by simp
  finally show ?case .
qed



lemma fetch_poll_in_progress:
  assumes "in_progress r" "replies w = r # rs" "monitor (reported w @ [download_progress_of r])"
  shows "fetch_poll u monitor w =
           fetch_poll u monitor
             (w\<lparr>requests := requests w @ [\<lparr>req_method = ''GET'', req_url = u, req_body = None, req_timeout = None\<rparr>],
               replies := rs, reported := reported w @ [download_progress_of r],
               sleeps := Suc (sleeps w)\<rparr>)"
proof -
  from assms(1) obtain j where r: "r = Reply j" by (cases r) auto
  with assms show ?thesis
    by (subst fetch_poll.simps) (simp add: lxd_request_Reply sleep_for_1s_def Let_def)
qed

lemma fetch_poll_ends:
  assumes "ends_polling r" "replies w = r # rs"
  shows "fetch_poll u monitor w =
           (Returns (), w\<lparr>requests := requests w @ [\<lparr>req_method = ''GET'', req_url = u, req_body = None, req_timeout = None\<rparr>], replies := rs\<rparr>)"
proof (cases r)
  case (Reply j)
  with assms show ?thesis
    by (subst fetch_poll.simps) (auto simp add: lxd_request_Reply)
next
  case NotFound
  with assms show ?thesis
    by (subst fetch_poll.simps) (simp add: lxd_request_NotFound)
next
  case Failure
  with assms show ?thesis by simp
qed

lemma fetch_poll_script:
  "list_all in_progress pre \<Longrightarrow> ends_polling r \<Longrightarrow> replies w = pre @ r # post \<Longrightarrow>
   \<forall>h. monitor h \<Longrightarrow>
     fetch_poll u monitor w =
       (Returns (),
        w\<lparr>requests := requests w @ replicate (Suc (length pre)) \<lparr>req_method = ''GET'', req_url = u, req_body = None, req_timeout = None\<rparr>,
          replies := post, reported := reported w @ map download_progress_of pre,
          sleeps := sleeps w + length pre\<rparr>)"
proof (induction pre arbitrary: w)
  case Nil
  from Nil(2,3) fetch_poll_ends[of r w post u monitor] show ?case by simp
next
  case (Cons p pre)
  let ?g = "\<lparr>req_method = ''GET'', req_url = u, req_body = None, req_timeout = None\<rparr>"
  let ?w = "w\<lparr>requests := requests w @ [?g], replies := pre @ r # post,
              reported := reported w @ [download_progress_of p], sleeps := Suc (sleeps w)\<rparr>"
  from Cons.prems have p: "in_progress p" and pre: "list_all in_progress pre" by simp_all
  from Cons.prems(3) have rp: "replies w = p # (pre @ r # post)" by simp
  from Cons.prems(4) have m: "monitor (reported w @ [download_progress_of p])" by blast
  from fetch_poll_in_progress[where monitor = monitor and u = u, OF p rp m] have "fetch_poll u monitor w = fetch_poll u monitor ?w" .
  also have "\<dots> = (Returns (),
        ?w\<lparr>requests := requests ?w @ replicate (Suc (length pre)) ?g,
          replies := post, reported := reported ?w @ map download_progress_of pre,
          sleeps := sleeps ?w + length pre\<rparr>)"
    by (rule Cons.IH[OF pre Cons.prems(2) _ Cons.prems(4)]) simp
  also have "\<dots> = (Returns (),
        w\<lparr>requests := requests w @ replicate (Suc (length (p # pre))) ?g,
          replies := post, reported := reported w @ map download_progress_of (p # pre),
          sleeps := sleeps w + length (p # pre)\<rparr>)"
    by simp
  finally show ?case .
qed

text \<open>
  C1, as amended. For every sequence of poll replies that starts with in-progress
  replies (error code 0, status code other than 200) and goes on with a reply that ends
  polling (an error code other than 0, the status code 200, or not-found), both polling
  loops stop at that reply: they have sent one GET per reply up to it, slept once per
  in-progress reply, and left the later replies unread. In all three cases the loop just
  ends normally; an error code is not reported as a failure. The loop of \<open>fetch_image\<close>
  has in addition reported one percentage per in-progress reply to a monitor that never
  aborts.
\<close>

theorem task_poller:
  assumes "list_all in_progress pre" and "ends_polling r" and "replies w = pre @ r # post"
    and "\<forall>h. monitor h"
  shows "create_poll u w =
           (Returns (),
            w\<lparr>requests := requests w @ replicate (Suc (length pre))
                   \<lparr>req_method = ''GET'', req_url = u, req_body = None, req_timeout = None\<rparr>,
              replies := post, sleeps := sleeps w + length pre\<rparr>)
       \<and> fetch_poll u monitor w =
           (Returns (),
            w\<lparr>requests := requests w @ replicate (Suc (length pre))
                   \<lparr>req_method = ''GET'', req_url = u, req_body = None, req_timeout = None\<rparr>,
              replies := post, reported := reported w @ map download_progress_of pre,
              sleeps := sleeps w + length pre\<rparr>)"
  using create_poll_script[OF assms(1-3)] fetch_poll_script[OF assms] by simp

theorem task_poller_witness:
  "list_all in_progress [operation_running ''rootfs: 10% (1.2MB/s)'', operation_running ''rootfs: 55% (1.3MB/s)'']
   \<and> ends_polling operation_success \<and> ends_polling NotFound \<and> ends_polling operation_error
   \<and> fst (create_poll ''op'' (fresh_world [operation_running ''rootfs: 10% (1.2MB/s)'',
             operation_running ''rootfs: 55% (1.3MB/s)'', operation_success])) = Returns ()
   \<and> sleeps (snd (create_poll ''op'' (fresh_world [operation_running ''rootfs: 10% (1.2MB/s)'',
             operation_running ''rootfs: 55% (1.3MB/s)'', operation_success]))) = 2
   \<and> fetch_poll ''op'' (\<lambda>h. True) (fresh_world [operation_running ''rootfs: 10% (1.2MB/s)'',
             operation_running ''rootfs: 55% (1.3MB/s)'', operation_success])
       = (Returns (),
          \<lparr>replies = [],
           requests = [\<lparr>req_method = ''GET'', req_url = ''op'', req_body = None, req_timeout = None\<rparr>,
                       \<lparr>req_method = ''GET'', req_url = ''op'', req_body = None, req_timeout = None\<rparr>,
                       \<lparr>req_method = ''GET'', req_url = ''op'', req_body = None, req_timeout = None\<rparr>],
           sleeps = 2, logs = [], persisted = [], reported = [10, 55]\<rparr>)
   \<and> fetch_poll ''op'' (\<lambda>h. True) (fresh_world [operation_running ''rootfs: 10% (1.2MB/s)'', NotFound])
       = (Returns (),
          \<lparr>replies = [],
           requests = [\<lparr>req_method = ''GET'', req_url = ''op'', req_body = None, req_timeout = None\<rparr>,
                       \<lparr>req_method = ''GET'', req_url = ''op'', req_body = None, req_timeout = None\<rparr>],
           sleeps = 1, logs = [], persisted = [], reported = [10]\<rparr>)
   \<and> fetch_poll ''op'' (\<lambda>h. True) (fresh_world [operation_error, operation_success])
       = (Returns (),
          \<lparr>replies = [operation_success],
           requests = [\<lparr>req_method = ''GET'', req_url = ''op'', req_body = None, req_timeout = None\<rparr>],
           sleeps = 0, logs = [], persisted = [], reported = []\<rparr>)"
proof -
  let ?r1 = "operation_running ''rootfs: 10% (1.2MB/s)''"
  let ?r2 = "operation_running ''rootfs: 55% (1.3MB/s)''"
  have p2: "list_all in_progress [?r1, ?r2]"
    by (simp add: operation_running_def value_of_def)
  have p1: "list_all in_progress [?r1]"
    by (simp add: operation_running_def value_of_def)
  have p0: "list_all in_progress []" by simp
  have e1: "ends_polling operation_success" by (simp add: operation_success_def value_of_def)
  have e2: "ends_polling NotFound" by simp
  have e3: "ends_polling operation_error" by (simp add: operation_error_def value_of_def)
  have m: "\<forall>h::int list. (\<lambda>h. True) h" by simp
  have d1: "download_progress_of ?r1 = 10" by code_simp
  have d2: "download_progress_of ?r2 = 55" by code_simp
  have s1: "replies (fresh_world [?r1, ?r2, operation_success]) = [?r1, ?r2] @ operation_success # []"
    by (simp add: fresh_world_def)
  have s2: "replies (fresh_world [?r1, NotFound]) = [?r1] @ NotFound # []"
    by (simp add: fresh_world_def)
  have s3: "replies (fresh_world [operation_error, operation_success]) = [] @ operation_error # [operation_success]"
    by (simp add: fresh_world_def)
  from task_poller[OF p2 e1 s1 m, of "''op''"] task_poller[OF p1 e2 s2 m, of "''op''"]
    task_poller[OF p0 e3 s3 m, of "''op''"] p2 e1 e2 e3 d1 d2
  show ?thesis
    by (simp add: fresh_world_def eval_nat_numeral)
qed

section \<open>Properties of the image fetch\<close>

lemma fetch_poll_requests:
  "\<exists>more. requests (snd (fetch_poll u monitor w)) = requests w @ more"
proof (induction u monitor w rule: fetch_poll.induct)
  case (1 task_url monitor w)
  obtain r w1 where l: "lxd_request ''GET'' task_url None None w = (r, w1)"
    by (cases "lxd_request ''GET'' task_url None None w")
  from lxd_request_effect[OF l] have e: "\<exists>more. requests w1 = requests w @ more" by simp
  show ?case
  proof (cases r)
    case (Returns task_reply)
    let ?dp = "parse_percent_as_int
                     (toString (value_of (toObject (value_of
                        (toObject (value_of task_reply ''metadata'')) ''metadata''))
                        ''download_progress''))"
    let ?w2 = "w1\<lparr>reported := reported w1 @ [?dp]\<rparr>"
    show ?thesis
    proof (cases "toInt (value_of task_reply ''error_code'') (- 1) \<noteq> 0
        \<or> toInt (value_of (toObject (value_of task_reply ''metadata'')) ''status_code'') (- 1) = 200")
      case True
      with l Returns e show ?thesis by (auto simp: fetch_poll.simps[of task_url monitor w])
    next
      case False
      then have a: "\<not> toInt (value_of task_reply ''error_code'') (- 1) \<noteq> 0"
        and b: "toInt (value_of (toObject (value_of task_reply ''metadata'')) ''status_code'') (- 1)
                  \<noteq> 200"
        by auto
      show ?thesis
      proof (cases "monitor (reported ?w2)")
        case True
        then have c: "\<not> \<not> monitor (reported ?w2)" by simp
        from "1.IH"[OF l[symmetric] Returns a b refl refl c]
        obtain more where "requests (snd (fetch_poll task_url monitor (sleep_for_1s ?w2)))
            = requests (sleep_for_1s ?w2) @ more"
          by auto
        with e l Returns False True show ?thesis
          by (auto simp: fetch_poll.simps[of task_url monitor w] sleep_for_1s_def Let_def)
      next
        case nm: False
        obtain rd w3 where d: "lxd_request ''DELETE'' task_url None None ?w2 = (rd, w3)"
          by (cases "lxd_request ''DELETE'' task_url None None ?w2")
        from lxd_request_effect[OF d] e have "\<exists>more. requests w3 = requests w @ more" by auto
        with l Returns False nm d show ?thesis
          by (auto simp: fetch_poll.simps[of task_url monitor w] Let_def
              split: result.splits exn.splits)
      qed
    qed
  next
    case (Throws x)
    with l e show ?thesis by (cases x) (auto simp: fetch_poll.simps[of task_url monitor w])
  next
    case Hangs
    with l e show ?thesis by (auto simp: fetch_poll.simps[of task_url monitor w])
  qed
qed

lemma fetch_poll_effect:
  "fetch_poll u monitor w = (r, w') \<Longrightarrow> \<exists>more. requests w' = requests w @ more"
  using fetch_poll_requests[of u monitor w] by simp

lemma existing_instance_images_effect:
  assumes "replies w = r # rest"
  shows "\<exists>res. res \<noteq> Hangs \<and> existing_instance_images vault query w =
           (res, w\<lparr>requests := requests w @
                      [\<lparr>req_method = ''GET'',
                        req_url = vault_base_url vault @ ''/virtual_machines/'' @ query_name query,
                        req_body = None, req_timeout = None\<rparr>],
                    replies := rest\<rparr>)"
proof (cases r)
  case (Reply j)
  with assms show ?thesis
    by (simp add: existing_instance_images_def lxd_request_Reply Let_def)
next
  case NotFound
  with assms show ?thesis
    by (simp add: existing_instance_images_def lxd_request_NotFound)
next
  case Failure
  with assms show ?thesis
    by (simp add: existing_instance_images_def lxd_request_Failure)
qed

text \<open>
  C5, as amended. For a query that is not of alias type on a platform without URL-style
  image sources, \<open>fetch_image\<close> throws the unsupported-source error after exactly one
  request, the GET for an existing instance of that name, whose answer it ignores; no
  catalog is asked and no image request is sent.
\<close>

theorem fetch_image_unsupported_source:
  assumes "query_type query \<noteq> Alias" and "replies w = r # rest"
  shows "fetch_image vault False query monitor w =
           (Throws (runtime_error ''http and file based images are not supported''),
            w\<lparr>requests := requests w @
                   [\<lparr>req_method = ''GET'',
                     req_url = vault_base_url vault @ ''/virtual_machines/'' @ query_name query,
                     req_body = None, req_timeout = None\<rparr>],
              replies := rest\<rparr>)"
proof -
  from existing_instance_images_effect[OF assms(2), of vault query]
  obtain res where "res \<noteq> Hangs" and "existing_instance_images vault query w =
           (res, w\<lparr>requests := requests w @
                      [\<lparr>req_method = ''GET'',
                        req_url = vault_base_url vault @ ''/virtual_machines/'' @ query_name query,
                        req_body = None, req_timeout = None\<rparr>],
                    replies := rest\<rparr>)"
    by blast
  with assms(1) show ?thesis
    by (cases res) (simp_all add: fetch_image_def)
qed



theorem fetch_image_unsupported_source_witness:
  "query_type (example_query HttpDownload) \<noteq> Alias
   \<and> replies (fresh_world [NotFound]) = NotFound # []
   \<and> fetch_image example_vault False (example_query HttpDownload) (\<lambda>h. True) (fresh_world [NotFound])
       = (Throws (runtime_error ''http and file based images are not supported''),
          \<lparr>replies = [],
           requests = [\<lparr>req_method = ''GET'',
                        req_url = ''unix:///lxd/1.0/virtual_machines/primary'',
                        req_body = None, req_timeout = None\<rparr>],
           sleeps = 0, logs = [], persisted = [], reported = []\<rparr>)"
proof -
  have q: "query_type (example_query HttpDownload) \<noteq> Alias"
    by (simp add: example_query_def)
  have r: "replies (fresh_world [NotFound]) = NotFound # []"
    by (simp add: fresh_world_def)
  from fetch_image_unsupported_source[OF q r, of example_vault "\<lambda>h. True"] q r
  show ?thesis
    by (simp add: fresh_world_def example_vault_def LXDVMImageVault_new_def example_query_def)
qed

text \<open>
  C5 as stated fails: the error is thrown, but one request has reached the transport.
\<close>

theorem fetch_image_unsupported_after_request:
  "query_type (example_query HttpDownload) \<noteq> Alias
   \<and> fst (fetch_image example_vault False (example_query HttpDownload) (\<lambda>h. True)
            (fresh_world [NotFound]))
       = Throws (runtime_error ''http and file based images are not supported'')
   \<and> requests (fresh_world [NotFound]) = []
   \<and> requests (snd (fetch_image example_vault False (example_query HttpDownload) (\<lambda>h. True)
                      (fresh_world [NotFound])))
       = [\<lparr>req_method = ''GET'', req_url = ''unix:///lxd/1.0/virtual_machines/primary'',
           req_body = None, req_timeout = None\<rparr>]"
  by (simp add: fetch_image_def existing_instance_images_def lxd_request_def fresh_world_def
      example_vault_def LXDVMImageVault_new_def example_query_def)

text \<open>
  C9. Once the query is admitted and resolved, \<open>fetch_image\<close> asks the daemon for the
  image by fingerprint. If that GET is answered with a record, the image is returned and
  the two GETs are all that was sent: no POST, no polling. Whenever the answer is
  anything but not-found no POST is sent; on not-found the next request is the POST that
  asks for the pull.
\<close>

theorem fetch_image_skips_pull:
  assumes "query_type query = Alias \<or> is_image_url_supported"
    and "info_for vault query = Inr info'"
    and "replies w = r0 # r1 # rest"
  shows "(\<forall>json_reply. r1 = Reply json_reply \<longrightarrow>
            fetch_image vault is_image_url_supported query monitor w =
              (Returns (source_image_of (info_id info') info'),
               w\<lparr>requests := requests w @
                      [\<lparr>req_method = ''GET'',
                        req_url = vault_base_url vault @ ''/virtual_machines/'' @ query_name query,
                        req_body = None, req_timeout = None\<rparr>,
                       \<lparr>req_method = ''GET'',
                        req_url = vault_base_url vault @ ''/images/'' @ info_id info',
                        req_body = None, req_timeout = None\<rparr>],
                 replies := rest\<rparr>))
       \<and> (r1 \<noteq> NotFound \<longrightarrow>
            requests (snd (fetch_image vault is_image_url_supported query monitor w)) =
              requests w @
                      [\<lparr>req_method = ''GET'',
                        req_url = vault_base_url vault @ ''/virtual_machines/'' @ query_name query,
                        req_body = None, req_timeout = None\<rparr>,
                       \<lparr>req_method = ''GET'',
                        req_url = vault_base_url vault @ ''/images/'' @ info_id info',
                        req_body = None, req_timeout = None\<rparr>])
       \<and> (r1 = NotFound \<longrightarrow>
            (\<exists>more. requests (snd (fetch_image vault is_image_url_supported query monitor w)) =
              requests w @
                      [\<lparr>req_method = ''GET'',
                        req_url = vault_base_url vault @ ''/virtual_machines/'' @ query_name query,
                        req_body = None, req_timeout = None\<rparr>,
                       \<lparr>req_method = ''GET'',
                        req_url = vault_base_url vault @ ''/images/'' @ info_id info',
                        req_body = None, req_timeout = None\<rparr>,
                       pull_request (vault_base_url vault) info'] @ more))"
proof -
  let ?g0 = "\<lparr>req_method = ''GET'',
                        req_url = vault_base_url vault @ ''/virtual_machines/'' @ query_name query,
                        req_body = None, req_timeout = None\<rparr>"
  let ?g1 = "\<lparr>req_method = ''GET'',
                        req_url = vault_base_url vault @ ''/images/'' @ info_id info',
                        req_body = None, req_timeout = None\<rparr>"
  let ?w1 = "w\<lparr>requests := requests w @ [?g0], replies := r1 # rest\<rparr>"
  from existing_instance_images_effect[OF assms(3), of vault query]
  obtain res where res: "res \<noteq> Hangs"
    and ex: "existing_instance_images vault query w = (res, ?w1)"
    by blast
  have r1: "replies ?w1 = r1 # rest" by simp
  have a: "fetch_image vault is_image_url_supported query monitor w =
              (Returns (source_image_of (info_id info') info'),
               w\<lparr>requests := requests w @ [?g0, ?g1], replies := rest\<rparr>)"
    if "r1 = Reply json_reply" for json_reply
    using that res ex assms(1,2) lxd_request_Reply[of ?w1 json_reply rest]
    by (cases res) (simp_all add: fetch_image_def Let_def)
  have b: "requests (snd (fetch_image vault is_image_url_supported query monitor w)) =
              requests w @ [?g0, ?g1]"
    if "r1 \<noteq> NotFound"
  proof (cases r1)
    case (Reply j)
    from a[OF this] show ?thesis by simp
  next
    case NotFound
    with that show ?thesis by simp
  next
    case Failure
    with res ex assms(1,2) lxd_request_Failure[of ?w1 rest] show ?thesis
      by (cases res) (simp_all add: fetch_image_def Let_def)
  qed
  have c: "\<exists>more. requests (snd (fetch_image vault is_image_url_supported query monitor w)) =
              requests w @ [?g0, ?g1, pull_request (vault_base_url vault) info'] @ more"
    if nf: "r1 = NotFound"
  proof -
    let ?w2 = "?w1\<lparr>requests := requests ?w1 @ [?g1], replies := rest\<rparr>"
    have g: "lxd_request ''GET'' (vault_base_url vault @ ''/images/'' @ info_id info') None None ?w1
               = (Throws LXDNotFoundException, ?w2)"
      using nf lxd_request_NotFound[of ?w1 rest] by simp
    obtain fr w' where f: "fetch_image vault is_image_url_supported query monitor w = (fr, w')"
      by (cases "fetch_image vault is_image_url_supported query monitor w")
    from f res ex assms(1,2) g
    have "\<exists>more. requests w' = requests ?w2 @ [pull_request (vault_base_url vault) info'] @ more"
      by (cases res)
         (auto simp: fetch_image_def Let_def pull_request_def
           split: prod.splits result.splits if_splits
           dest!: lxd_request_effect fetch_poll_effect)
    with f show ?thesis by simp
  qed
  from a b c show ?thesis by blast
qed

lemma info_for_example: "info_for example_vault (example_query t) = Inr example_info"
  by (simp add: info_for_def example_vault_def LXDVMImageVault_new_def example_query_def)

theorem fetch_image_skips_pull_witness:
  "(query_type (example_query Alias) = Alias \<or> True)
   \<and> info_for example_vault (example_query Alias) = Inr example_info
   \<and> fetch_image example_vault True (example_query Alias) (\<lambda>h. True)
        (fresh_world [NotFound, sync_done, operation_success])
      = (Returns (source_image_of ''abc123'' example_info),
         \<lparr>replies = [operation_success],
          requests = [\<lparr>req_method = ''GET'',
                       req_url = ''unix:///lxd/1.0/virtual_machines/primary'',
                       req_body = None, req_timeout = None\<rparr>,
                      \<lparr>req_method = ''GET'', req_url = ''unix:///lxd/1.0/images/abc123'',
                       req_body = None, req_timeout = None\<rparr>],
          sleeps = 0, logs = [], persisted = [], reported = []\<rparr>)
   \<and> (\<exists>more. requests (snd (fetch_image example_vault True (example_query Alias) (\<lambda>h. True)
                 (fresh_world [NotFound, NotFound, sync_done])))
        = [\<lparr>req_method = ''GET'',
                       req_url = ''unix:///lxd/1.0/virtual_machines/primary'',
                       req_body = None, req_timeout = None\<rparr>,
                      \<lparr>req_method = ''GET'', req_url = ''unix:///lxd/1.0/images/abc123'',
                       req_body = None, req_timeout = None\<rparr>,
                      pull_request ''unix:///lxd/1.0'' example_info] @ more)"
proof -
  have q: "query_type (example_query Alias) = Alias \<or> True" by simp
  note i = info_for_example[of Alias]
  have r: "replies (fresh_world [NotFound, sync_done, operation_success])
             = NotFound # sync_done # [operation_success]"
    by (simp add: fresh_world_def)
  have r': "replies (fresh_world [NotFound, NotFound, sync_done])
             = NotFound # NotFound # [sync_done]"
    by (simp add: fresh_world_def)
  have b: "vault_base_url example_vault = ''unix:///lxd/1.0''"
    by (simp add: example_vault_def LXDVMImageVault_new_def)
  have n: "query_name (example_query Alias) = ''primary''" "info_id example_info = ''abc123''"
    by (simp_all add: example_query_def example_info_def)
  from fetch_image_skips_pull[OF q i r, of "\<lambda>h. True"]
    fetch_image_skips_pull[OF q i r', of "\<lambda>h. True"] q i
  show ?thesis
    by (simp add: b n sync_done_def fresh_world_def)
qed

lemma fetch_image_pull_ends:
  assumes "query_type query = Alias \<or> is_image_url_supported"
    and "info_for vault query = Inr info'"
    and "replies w = r0 # NotFound # Reply json_reply # r # rest"
    and "is_running_task json_reply"
    and "ends_polling r"
  shows "fst (fetch_image vault is_image_url_supported query monitor w) =
           Returns (source_image_of (info_id info') info')"
proof -
  let ?g0 = "\<lparr>req_method = ''GET'',
              req_url = vault_base_url vault @ ''/virtual_machines/'' @ query_name query,
              req_body = None, req_timeout = None\<rparr>"
  let ?w1 = "w\<lparr>requests := requests w @ [?g0], replies := NotFound # Reply json_reply # r # rest\<rparr>"
  from existing_instance_images_effect[OF assms(3), of vault query]
  obtain res where res: "res \<noteq> Hangs"
    and ex: "existing_instance_images vault query w = (res, ?w1)"
    by blast
  obtain w2 where g: "lxd_request ''GET'' (vault_base_url vault @ ''/images/'' @ info_id info')
                        None None ?w1 = (Throws LXDNotFoundException, w2)"
    and r2: "replies w2 = Reply json_reply # r # rest"
    using lxd_request_NotFound[of ?w1 "Reply json_reply # r # rest"] by simp
  obtain w3 where p: "lxd_request ''POST'' (vault_base_url vault @ ''/images'')
                        (req_body (pull_request (vault_base_url vault) info')) None w2
                      = (Returns json_reply, w3)"
    and r3: "replies w3 = r # rest"
    using lxd_request_Reply[OF r2] by simp
  obtain w4 where f: "fetch_poll (vault_base_url vault @ ''/operations/''
                         @ toString (value_of (toObject (value_of json_reply ''metadata'')) ''id''))
                        monitor w3 = (Returns (), w4)"
    using fetch_poll_ends[OF assms(5) r3] by simp
  from res ex assms(1,2,4) g p f show ?thesis
    by (cases res) (simp_all add: fetch_image_def Let_def pull_request_def)
qed

text \<open>
  C1 as stated fails: on a reply with a non-zero error code the loop returns normally,
  and \<open>fetch_image\<close> hands back the image exactly as it does after a successful pull.
\<close>

theorem poll_error_is_not_a_failure:
  "ends_polling operation_error
   \<and> create_poll ''unix:///lxd/1.0/operations/op1'' (fresh_world [operation_error])
      = (Returns (),
         \<lparr>replies = [],
          requests = [\<lparr>req_method = ''GET'', req_url = ''unix:///lxd/1.0/operations/op1'',
                       req_body = None, req_timeout = None\<rparr>],
          sleeps = 0, logs = [], persisted = [], reported = []\<rparr>)
   \<and> fst (fetch_image example_vault True (example_query Alias) (\<lambda>h. True)
           (fresh_world [NotFound, NotFound, operation_created ''op1'', operation_error]))
      = Returns (source_image_of ''abc123'' example_info)
   \<and> fst (fetch_image example_vault True (example_query Alias) (\<lambda>h. True)
           (fresh_world [NotFound, NotFound, operation_created ''op1'', operation_success]))
      = Returns (source_image_of ''abc123'' example_info)"
proof -
  have e: "ends_polling operation_error" by (simp add: operation_error_def value_of_def)
  have s: "ends_polling operation_success" by (simp add: operation_success_def value_of_def)
  have c: "create_poll ''unix:///lxd/1.0/operations/op1'' (fresh_world [operation_error])
      = (Returns (),
         \<lparr>replies = [],
          requests = [\<lparr>req_method = ''GET'', req_url = ''unix:///lxd/1.0/operations/op1'',
                       req_body = None, req_timeout = None\<rparr>],
          sleeps = 0, logs = [], persisted = [], reported = []\<rparr>)"
    using create_poll_ends[OF e, of "fresh_world [operation_error]" "[]"]
    by (simp add: fresh_world_def)
  have q: "query_type (example_query Alias) = Alias \<or> True" by simp
  have t: "is_running_task [(''type'', JString ''async''), (''status_code'', JNumber 100),
            (''metadata'', JObject [(''id'', JString ''op1''), (''class'', JString ''task''),
                                    (''status_code'', JNumber 103)])]"
    by (simp add: is_running_task_def value_of_def)
  have f: "fst (fetch_image example_vault True (example_query Alias) (\<lambda>h. True)
           (fresh_world [NotFound, NotFound, operation_created ''op1'', r]))
      = Returns (source_image_of ''abc123'' example_info)" if "ends_polling r" for r
    using fetch_image_pull_ends[OF q info_for_example[of Alias] _ t that,
        of "fresh_world [NotFound, NotFound, operation_created ''op1'', r]" NotFound "[]" "\<lambda>h. True"]
    by (simp add: fresh_world_def operation_created_def example_info_def)
  from e c f[OF e] f[OF s] show ?thesis by blast
qed

end
